theory Spec2Isabelle
  imports
    Complex_Main
    "HOL-Library.Multiset"
    "HOL-Library.AList"
    "HOL-Library.Char_ord"
    "HOL-Library.List_Lexorder"
begin

section \<open>JavaScript values\<close>

text \<open>
  The dashboard works on parsed JSON.  A value is one of the JSON shapes, or
  \<open>undefined\<close>, which the sanitizer writes into arrays and which a read of a
  missing property or of an index past the end of an array yields.  An object is
  an association list; a read takes the first binding of the key.  A string is a
  list of code units, of which the model keeps the range 0..255 (ASCII and the
  Latin-1 letters of Spanish station names).  JSON numbers are finite and are
  held exactly.
\<close>

datatype jsval =
    JUndefined
  | JNull
  | JBool bool
  | JNum rat
  | JStr string
  | JArr "jsval list"
  | JObj "(string \<times> jsval) list"

text \<open>ToBoolean, as \<open>if (v)\<close>, \<open>!v\<close>, \<open>a && b\<close> and \<open>a || b\<close> use it.\<close>

fun truthy :: "jsval \<Rightarrow> bool" where
  "truthy JUndefined = False"
| "truthy JNull = False"
| "truthy (JBool b) = b"
| "truthy (JNum n) = (n \<noteq> 0)"
| "truthy (JStr s) = (s \<noteq> [])"
| "truthy (JArr xs) = True"
| "truthy (JObj kvs) = True"

text \<open>\<open>Array.isArray\<close>.\<close>

fun isArray :: "jsval \<Rightarrow> bool" where
  "isArray (JArr xs) = True"
| "isArray _ = False"

text \<open>The decimal name of an array index, as a property key.\<close>

fun digits :: "nat \<Rightarrow> string" where
  "digits n =
     (if n < 10 then [''0123456789'' ! n]
      else digits (n div 10) @ [''0123456789'' ! (n mod 10)])"

declare digits.simps [simp del]

definition indexed :: "jsval list \<Rightarrow> (string \<times> jsval) list" where
  "indexed xs = map (\<lambda>(i, x). (digits i, x)) (enumerate 0 xs)"

text \<open>
  The own enumerable properties of a value, which the spread \<open>{...v}\<close> copies:
  the bindings of an object, the indices of an array or of a string, nothing for
  the other primitives.
\<close>

fun ownProps :: "jsval \<Rightarrow> (string \<times> jsval) list" where
  "ownProps (JObj kvs) = kvs"
| "ownProps (JArr xs) = indexed xs"
| "ownProps (JStr s) = indexed (map (\<lambda>c. JStr [c]) s)"
| "ownProps v = []"

definition lookup :: "(string \<times> jsval) list \<Rightarrow> string \<Rightarrow> jsval" where
  "lookup kvs k = (case map_of kvs k of Some v \<Rightarrow> v | None \<Rightarrow> JUndefined)"

text \<open>
  \<open>v.k\<close> for a data key \<open>k\<close> and a value \<open>v\<close> other than \<open>null\<close> and
  \<open>undefined\<close> (every such read of the program is behind a truthiness test of
  \<open>v\<close>): the own property, \<open>undefined\<close> when there is none.
\<close>

definition getProp :: "jsval \<Rightarrow> string \<Rightarrow> jsval" where
  "getProp v k = lookup (ownProps v) k"

text \<open>
  \<open>v?.[i]\<close>: \<open>undefined\<close> when \<open>v\<close> is \<open>null\<close> or \<open>undefined\<close>, the
  element when \<open>v\<close> is an array or a string and \<open>i\<close> is in range, and
  \<open>undefined\<close> past the end: an out-of-range read does not raise.
\<close>

fun elemAt :: "jsval \<Rightarrow> nat \<Rightarrow> jsval" where
  "elemAt (JArr xs) i = (if i < length xs then xs ! i else JUndefined)"
| "elemAt (JStr s) i = (if i < length s then JStr [s ! i] else JUndefined)"
| "elemAt (JObj kvs) i = lookup kvs (digits i)"
| "elemAt v i = JUndefined"

section \<open>Forecast view: sanitizing, merging, filtering, sorting\<close>

subsection \<open>sanitizeForecastData\<close>

text \<open>
  The inner helper \<open>sanitizeArray\<close>: anything that is not an array becomes the
  empty array; in an array every \<open>null\<close> entry becomes \<open>undefined\<close>.
\<close>

fun sanitizeArray :: "jsval \<Rightarrow> jsval" where
  "sanitizeArray (JArr xs) = JArr (map (\<lambda>val. if val = JNull then JUndefined else val) xs)"
| "sanitizeArray arr = JArr []"

definition sanitizeForecastData :: "jsval \<Rightarrow> jsval" where
  "sanitizeForecastData data =
     (if \<not> truthy data then JNull
      else
        let result = ownProps data;
            result =
              (if truthy (lookup result ''train'') then
                 AList.update ''train''
                   (JObj [(''dates'', sanitizeArray (getProp (lookup result ''train'') ''dates'')),
                          (''actual'', sanitizeArray (getProp (lookup result ''train'') ''actual'')),
                          (''fitted'', sanitizeArray (getProp (lookup result ''train'') ''fitted'')),
                          (''lower'', sanitizeArray (getProp (lookup result ''train'') ''lower'')),
                          (''upper'', sanitizeArray (getProp (lookup result ''train'') ''upper''))])
                   result
               else result);
            result =
              (if truthy (lookup result ''test'') then
                 AList.update ''test''
                   (JObj [(''dates'', sanitizeArray (getProp (lookup result ''test'') ''dates'')),
                          (''actual'', sanitizeArray (getProp (lookup result ''test'') ''actual'')),
                          (''predicted'', sanitizeArray (getProp (lookup result ''test'') ''predicted'')),
                          (''lower'', sanitizeArray (getProp (lookup result ''test'') ''lower'')),
                          (''upper'', sanitizeArray (getProp (lookup result ''test'') ''upper''))])
                   result
               else result);
            result =
              (if truthy (lookup result ''forecast'') then
                 AList.update ''forecast''
                   (JObj [(''dates'', sanitizeArray (getProp (lookup result ''forecast'') ''dates'')),
                          (''predicted'', sanitizeArray (getProp (lookup result ''forecast'') ''predicted'')),
                          (''lower'', sanitizeArray (getProp (lookup result ''forecast'') ''lower'')),
                          (''upper'', sanitizeArray (getProp (lookup result ''forecast'') ''upper''))])
                   result
               else result)
        in JObj result)"

subsection \<open>prepareChartData\<close>

text \<open>
  A row of the merged table.  A field the object literal does not mention reads
  as \<open>undefined\<close>, like a field it sets to \<open>undefined\<close>; both are
  \<^const>\<open>JUndefined\<close> here.
\<close>

record ChartPoint =
  fecha :: jsval
  actual :: jsval
  fitted :: jsval
  validation_predicted :: jsval
  predicted :: jsval
  lower :: jsval
  upper :: jsval
  type :: string

text \<open>
  \<open>dates.forEach((date, i) => { if (i < dates.length) chartData.push(row) })\<close>.
  The call raises a TypeError (\<^const>\<open>None\<close>) when \<open>dates\<close> is not an array.
\<close>

definition forEachPush :: "jsval \<Rightarrow> (jsval \<Rightarrow> nat \<Rightarrow> ChartPoint) \<Rightarrow> ChartPoint list option" where
  "forEachPush dates row =
     (case dates of
        JArr ds \<Rightarrow>
          Some (concat (map (\<lambda>(i, date). if i < length ds then [row date i] else [])
                  (enumerate 0 ds)))
      | _ \<Rightarrow> None)"

definition trainRows :: "jsval \<Rightarrow> ChartPoint list option" where
  "trainRows train =
     (if truthy train \<and> truthy (getProp train ''dates'') then
        forEachPush (getProp train ''dates'')
          (\<lambda>date i. \<lparr>fecha = date,
                      actual = elemAt (getProp train ''actual'') i,
                      fitted = elemAt (getProp train ''fitted'') i,
                      validation_predicted = JUndefined,
                      predicted = JUndefined,
                      lower = elemAt (getProp train ''lower'') i,
                      upper = elemAt (getProp train ''upper'') i,
                      type = ''train''\<rparr>)
      else Some [])"

definition testRows :: "jsval \<Rightarrow> ChartPoint list option" where
  "testRows test =
     (if truthy test \<and> truthy (getProp test ''dates'') then
        forEachPush (getProp test ''dates'')
          (\<lambda>date i. \<lparr>fecha = date,
                      actual = elemAt (getProp test ''actual'') i,
                      fitted = JUndefined,
                      validation_predicted = elemAt (getProp test ''predicted'') i,
                      predicted = JUndefined,
                      lower = elemAt (getProp test ''lower'') i,
                      upper = elemAt (getProp test ''upper'') i,
                      type = ''test''\<rparr>)
      else Some [])"

definition futureRows :: "jsval \<Rightarrow> ChartPoint list option" where
  "futureRows forecast =
     (if truthy forecast \<and> truthy (getProp forecast ''dates'') then
        forEachPush (getProp forecast ''dates'')
          (\<lambda>date i. \<lparr>fecha = date,
                      actual = JUndefined,
                      fitted = JUndefined,
                      validation_predicted = JUndefined,
                      predicted = elemAt (getProp forecast ''predicted'') i,
                      lower = elemAt (getProp forecast ''lower'') i,
                      upper = elemAt (getProp forecast ''upper'') i,
                      type = ''future''\<rparr>)
      else Some [])"

text \<open>The merge: the three blocks push onto one \<open>chartData\<close>, in this order.\<close>

definition mergeChartData :: "jsval \<Rightarrow> ChartPoint list option" where
  "mergeChartData forecastData =
     (case trainRows (getProp forecastData ''train'') of
        None \<Rightarrow> None
      | Some tr \<Rightarrow>
          (case testRows (getProp forecastData ''test'') of
             None \<Rightarrow> None
           | Some te \<Rightarrow>
               (case futureRows (getProp forecastData ''forecast'') of
                  None \<Rightarrow> None
                | Some fu \<Rightarrow> Some (tr @ te @ fu))))"

text \<open>The mode filter: three conditional pushes onto \<open>filteredData\<close>.\<close>

definition filterByMode :: "string \<Rightarrow> ChartPoint list \<Rightarrow> ChartPoint list" where
  "filterByMode mode chartData =
     (if mode = ''all'' \<or> mode = ''train'' then filter (\<lambda>d. type d = ''train'') chartData else [])
     @ (if mode = ''all'' \<or> mode = ''test'' then filter (\<lambda>d. type d = ''test'') chartData else [])
     @ (if mode = ''all'' \<or> mode = ''future'' then filter (\<lambda>d. type d = ''future'') chartData else [])"

text \<open>
  The comparator \<open>new Date(a.fecha) - new Date(b.fecha)\<close>.  What \<open>new Date\<close>
  makes of a value belongs to the host, so it is a parameter \<open>tv\<close>: the time value
  in milliseconds, \<^const>\<open>None\<close> for an invalid date.  The constructor does not
  raise on any JSON value, and the difference is NaN (\<^const>\<open>None\<close>) as soon as
  one side is invalid.
\<close>

definition compareFecha :: "(jsval \<Rightarrow> int option) \<Rightarrow> ChartPoint \<Rightarrow> ChartPoint \<Rightarrow> int option" where
  "compareFecha tv a b =
     (case tv (fecha a) of
        None \<Rightarrow> None
      | Some x \<Rightarrow> (case tv (fecha b) of None \<Rightarrow> None | Some y \<Rightarrow> Some (x - y)))"

text \<open>
  \<open>Array.prototype.sort(comparefn)\<close>.  ECMAScript reads a NaN from the comparator
  as \<open>+0\<close> and asks for a stable sort; the algorithm is left to the engine, and
  the result is fixed by the standard when the comparator is consistent.  The model
  is the stable insertion sort: an element moves behind its right neighbour
  exactly when the comparator is positive.  With an inconsistent comparator the
  list it returns is one of the orders an engine may produce, and no more is read
  from it.
\<close>

definition sortCompare :: "('a \<Rightarrow> 'a \<Rightarrow> int option) \<Rightarrow> 'a \<Rightarrow> 'a \<Rightarrow> int" where
  "sortCompare comparefn x y = (case comparefn x y of None \<Rightarrow> 0 | Some v \<Rightarrow> v)"

fun insertSorted :: "('a \<Rightarrow> 'a \<Rightarrow> int option) \<Rightarrow> 'a \<Rightarrow> 'a list \<Rightarrow> 'a list" where
  "insertSorted comparefn x [] = [x]"
| "insertSorted comparefn x (y # ys) =
     (if sortCompare comparefn x y > 0 then y # insertSorted comparefn x ys else x # y # ys)"

fun sortBy :: "('a \<Rightarrow> 'a \<Rightarrow> int option) \<Rightarrow> 'a list \<Rightarrow> 'a list" where
  "sortBy comparefn [] = []"
| "sortBy comparefn (x # xs) = insertSorted comparefn x (sortBy comparefn xs)"

text \<open>
  \<open>prepareChartData\<close>, with the state it reads (\<open>forecastData\<close>, \<open>mode\<close>) as
  arguments.  An exception anywhere in the body is caught and gives \<open>[]\<close>.
\<close>

definition prepareChartData :: "(jsval \<Rightarrow> int option) \<Rightarrow> jsval \<Rightarrow> string \<Rightarrow> ChartPoint list" where
  "prepareChartData tv forecastData mode =
     (if \<not> truthy forecastData then []
      else
        (case mergeChartData forecastData of
           None \<Rightarrow> []
         | Some chartData \<Rightarrow> sortBy (compareFecha tv) (filterByMode mode chartData)))"

text \<open>A row that holds \<open>null\<close> in some field.\<close>

definition hasNull :: "ChartPoint \<Rightarrow> bool" where
  "hasNull r \<longleftrightarrow>
     JNull \<in> {fecha r, actual r, fitted r, validation_predicted r, predicted r, lower r, upper r}"

text \<open>
  What the chart is to see of a response array, as the specification words the
  sanitization: an entry that is \<open>null\<close> counts as absent, every other entry is
  itself, at its own index; where the value is no array, or has no entry at the
  index, the entry is absent.
\<close>

definition nullToAbsent :: "jsval \<Rightarrow> jsval" where
  "nullToAbsent v = (if v = JNull then JUndefined else v)"

definition entryAt :: "jsval \<Rightarrow> nat \<Rightarrow> jsval" where
  "entryAt arr i = (if isArray arr then nullToAbsent (elemAt arr i) else JUndefined)"

text \<open>
  A response whose \<open>train\<close> sub-series has two dates and a single \<open>actual\<close>
  value.
\<close>

definition shortActual :: jsval where
  "shortActual =
     JObj [(''train'',
            JObj [(''dates'', JArr [JStr ''2021-01'', JStr ''2021-02'']),
                  (''actual'', JArr [JNum 10]),
                  (''fitted'', JArr [JNum 9, JNum 11]),
                  (''lower'', JArr [JNum 8, JNum 10]),
                  (''upper'', JArr [JNum 12, JNum 13])])]"

text \<open>The elements of an array value; no elements for any other value.\<close>

fun items :: "jsval \<Rightarrow> jsval list" where
  "items (JArr xs) = xs"
| "items v = []"

text \<open>
  A host for the concrete examples: the time values that the date-only ISO form
  gives three month strings (UTC midnight of the first day of the month, in
  milliseconds since the epoch); on every other value this host reports an
  invalid date.
\<close>

definition months2021 :: "jsval \<Rightarrow> int option" where
  "months2021 v =
     (if v = JStr ''2021-01'' then Some 1609459200000
      else if v = JStr ''2021-02'' then Some 1612137600000
      else if v = JStr ''2021-03'' then Some 1614556800000
      else None)"

section \<open>API client\<close>

text \<open>
  An error message is the concatenation of its parts: literal text, or the string
  conversion of a JSON value (which \<open>new Error(v)\<close> applies to a \<open>detail\<close> that
  is not a string), left symbolic.
\<close>

datatype part = Lit string | Shown jsval

type_synonym message = "part list"

datatype error = Error message

text \<open>
  What the client reads of a \<open>fetch\<close> response.  \<open>json\<close> is the outcome of
  \<open>response.json()\<close>: \<^const>\<open>None\<close> when the body is not JSON and the call
  rejects.
\<close>

record response =
  ok :: bool
  status :: nat
  statusText :: string
  json :: "jsval option"

text \<open>
  The network: \<open>fetch(url)\<close> resolves with a response or rejects with a message.
  Each client call returns the list of URLs it fetched, in order, next to its
  outcome; \<^const>\<open>Inl\<close> is the thrown error.
\<close>

type_synonym network = "string \<Rightarrow> message + response"

definition API_BASE_URL :: string where
  "API_BASE_URL = ''http://localhost:8000/api''"

definition statusMessage :: "response \<Rightarrow> message" where
  "statusMessage r = [Lit ''Error '', Lit (digits (status r)), Lit '': '', Lit (statusText r)]"

fun messageOf :: "jsval \<Rightarrow> message" where
  "messageOf (JStr s) = [Lit s]"
| "messageOf v = [Shown v]"

text \<open>
  The message of the TypeError that a property read on \<open>null\<close> raises; its
  wording is the engine's.
\<close>

definition typeErrorMessage :: message where
  "typeErrorMessage = [Lit ''Cannot read properties of null'']"

definition handleResponse :: "response \<Rightarrow> error + jsval" where
  "handleResponse r =
     (if \<not> ok r then
        Inl (Error
          (case json r of
             None \<Rightarrow> statusMessage r
           | Some errorData \<Rightarrow>
               (if errorData = JNull \<or> errorData = JUndefined then statusMessage r
                else if truthy (getProp errorData ''detail'')
                  then messageOf (getProp errorData ''detail'')
                else statusMessage r)))
      else
        (case json r of
           None \<Rightarrow>
             Inl (Error [Lit (''La respuesta del servidor tiene un formato inv'' @ [CHR 0xE1] @ ''lido'')])
         | Some data \<Rightarrow> Inr data))"

text \<open>The \<open>catch\<close> of each call: the error is thrown again under the call's prefix.\<close>

fun rethrow :: "string \<Rightarrow> error + 'a \<Rightarrow> error + 'a" where
  "rethrow prefix (Inl (Error m)) = Inl (Error (Lit prefix # m))"
| "rethrow prefix (Inr v) = Inr v"

text \<open>\<open>await fetch(url)\<close> followed by \<open>await handleResponse(response)\<close>.\<close>

definition fetchJson :: "network \<Rightarrow> string \<Rightarrow> error + jsval" where
  "fetchJson net url =
     (case net url of
        Inl m \<Rightarrow> Inl (Error m)
      | Inr r \<Rightarrow> handleResponse r)"

definition getStations :: "network \<Rightarrow> string list \<times> (error + jsval)" where
  "getStations net =
     (let url = API_BASE_URL @ ''/stations'' in
      ([url],
       rethrow ''No se pudieron obtener las estaciones: ''
         (case fetchJson net url of
            Inl e \<Rightarrow> Inl e
          | Inr data \<Rightarrow>
              (if \<not> isArray data then
                 Inl (Error [Lit (''El servidor devolvi'' @ [CHR 0xF3] @ '' un formato de datos inesperado'')])
               else Inr data))))"

text \<open>
  \<open>encodeURIComponent\<close> on code units 0..255: the unreserved characters stay,
  any other ASCII character becomes one escape, and a Latin-1 character becomes
  the two escapes of its UTF-8 bytes.
\<close>

definition hexDigit :: "nat \<Rightarrow> char" where
  "hexDigit n = ''0123456789ABCDEF'' ! n"

definition escape :: "nat \<Rightarrow> string" where
  "escape b = [CHR ''%'', hexDigit (b div 16), hexDigit (b mod 16)]"

definition unreserved :: "char \<Rightarrow> bool" where
  "unreserved c =
     (c \<in> set (''ABCDEFGHIJKLMNOPQRSTUVWXYZ'' @ ''abcdefghijklmnopqrstuvwxyz''
                @ ''0123456789'' @ ''-_.!~*'' @ [CHR 0x27] @ ''()''))"

definition encodeChar :: "char \<Rightarrow> string" where
  "encodeChar c =
     (let n = (of_char c :: nat) in
      if unreserved c then [c]
      else if n < 128 then escape n
      else escape (192 + n div 64) @ escape (128 + n mod 64))"

definition encodeURIComponent :: "string \<Rightarrow> string" where
  "encodeURIComponent s = concat (map encodeChar s)"

text \<open>
  An argument of \<open>getTimeSeries\<close> and \<open>getForecast\<close> is a string or missing
  (\<^const>\<open>None\<close>); \<open>!arg\<close> holds for a missing and for an empty one.
\<close>

fun missing :: "string option \<Rightarrow> bool" where
  "missing None = True"
| "missing (Some s) = (s = [])"

definition requiredMessage :: message where
  "requiredMessage =
     [Lit (''Se requiere especificar l'' @ [CHR 0xED] @ ''nea y estaci'' @ [CHR 0xF3] @ ''n'')]"

fun getTimeSeries :: "network \<Rightarrow> string option \<Rightarrow> string option \<Rightarrow> string list \<times> (error + jsval)" where
  "getTimeSeries net (Some l) (Some e) =
     (if missing (Some l) \<or> missing (Some e) then ([], Inl (Error requiredMessage))
      else
        let url = API_BASE_URL @ ''/timeseries/'' @ encodeURIComponent l @ ''/'' @ encodeURIComponent e in
        ([url],
         rethrow ''No se pudo obtener la serie temporal: ''
           (case fetchJson net url of
              Inl err \<Rightarrow> Inl err
            | Inr data \<Rightarrow>
                (if data = JNull \<or> data = JUndefined then Inl (Error typeErrorMessage)
                 else if \<not> truthy (getProp data ''data'') \<or> \<not> isArray (getProp data ''data'') then
                   Inl (Error [Lit (''El formato de los datos recibidos es inv'' @ [CHR 0xE1] @ ''lido'')])
                 else Inr data))))"
| "getTimeSeries net l e = ([], Inl (Error requiredMessage))"

fun getForecast :: "network \<Rightarrow> string option \<Rightarrow> string option \<Rightarrow> string list \<times> (error + jsval)" where
  "getForecast net (Some l) (Some e) =
     (if missing (Some l) \<or> missing (Some e) then ([], Inl (Error requiredMessage))
      else
        let url = API_BASE_URL @ ''/forecast/'' @ encodeURIComponent l @ ''/'' @ encodeURIComponent e in
        ([url],
         rethrow (''No se pudo obtener el pron'' @ [CHR 0xF3] @ ''stico: '')
           (case fetchJson net url of
              Inl err \<Rightarrow> Inl err
            | Inr data \<Rightarrow>
                (if data = JNull \<or> data = JUndefined then Inl (Error typeErrorMessage)
                 else if \<not> truthy (getProp data ''forecast'') then
                   Inl (Error [Lit (''El formato del pron'' @ [CHR 0xF3] @ ''stico recibido es inv'' @ [CHR 0xE1] @ ''lido'')])
                 else Inr (getProp data ''forecast'')))))"
| "getForecast net l e = ([], Inl (Error requiredMessage))"

text \<open>
  The shape the data model gives a station, \<open>{ linea: string, estacion: string }\<close>,
  as a predicate on a JSON value, and on a JSON array of them.
\<close>

fun isString :: "jsval \<Rightarrow> bool" where
  "isString (JStr s) = True"
| "isString v = False"

fun isStation :: "jsval \<Rightarrow> bool" where
  "isStation (JObj kvs) = (isString (lookup kvs ''linea'') \<and> isString (lookup kvs ''estacion''))"
| "isStation v = False"

fun isStationList :: "jsval \<Rightarrow> bool" where
  "isStationList (JArr xs) = list_all isStation xs"
| "isStationList v = False"

text \<open>A network that answers every request with one response.\<close>

definition respond :: "response \<Rightarrow> network" where
  "respond r url = Inr r"

section \<open>Forecast view: the action button\<close>

record ForecastView =
  forecastData :: jsval
  loading :: bool
  error :: "message option"
  mode :: string

text \<open>
  \<open>handleForecastClick\<close>, from the click to the end of the handler, with the
  props \<open>linea\<close> and \<open>estacion\<close>: the URLs fetched and the state the setters
  leave.
\<close>

definition handleForecastClick ::
  "network \<Rightarrow> string option \<Rightarrow> string option \<Rightarrow> ForecastView \<Rightarrow> string list \<times> ForecastView" where
  "handleForecastClick net l e st =
     (if truthy (forecastData st) then ([], st\<lparr>forecastData := JNull\<rparr>)
      else
        let st1 = st\<lparr>loading := True, error := None\<rparr> in
        (case getForecast net l e of
           (fetched, Inr data) \<Rightarrow>
             (fetched, st1\<lparr>forecastData := sanitizeForecastData data, loading := False\<rparr>)
         | (fetched, Inl (Error m)) \<Rightarrow>
             (fetched, st1\<lparr>error := Some (Lit ''Error: '' # m), loading := False\<rparr>)))"

section \<open>Station selector\<close>

record Station =
  linea :: string
  estacion :: string

text \<open>\<open>[...new Set(xs)]\<close>: the elements in the order of their first occurrence.\<close>

fun addAll :: "'a list \<Rightarrow> 'a list \<Rightarrow> 'a list" where
  "addAll seen [] = seen"
| "addAll seen (x # xs) = addAll (if x \<in> set seen then seen else seen @ [x]) xs"

definition newSet :: "'a list \<Rightarrow> 'a list" where
  "newSet xs = addAll [] xs"

text \<open>
  The comparison of \<open>sort()\<close> without a comparator, on strings: by code units, a
  proper prefix first.
\<close>

definition defaultCompare :: "string \<Rightarrow> string \<Rightarrow> int option" where
  "defaultCompare x y = (if x < y then Some (- 1) else if y < x then Some 1 else Some 0)"

definition lines :: "Station list \<Rightarrow> string list" where
  "lines stations =
     (if length stations = 0 then []
      else sortBy defaultCompare (newSet (map linea stations)))"

text \<open>
  \<open>String.prototype.localeCompare\<close> is the host's collation and so a parameter:
  it returns a number, never NaN.
\<close>

definition stationsForLine :: "(string \<Rightarrow> string \<Rightarrow> int) \<Rightarrow> string \<Rightarrow> Station list \<Rightarrow> Station list" where
  "stationsForLine localeCompare selectedLine stations =
     (if selectedLine = [] then []
      else sortBy (\<lambda>a b. Some (localeCompare (estacion a) (estacion b)))
             (filter (\<lambda>s. linea s = selectedLine) stations))"

text \<open>
  A host collation for the examples: names compare by their letters without the
  acute accent first, and by code units where that leaves them equal.  On the
  names used in the examples it orders as the Spanish collation does.
\<close>

definition baseLetter :: "char \<Rightarrow> char" where
  "baseLetter c =
     (if c = CHR 0xE1 then CHR ''a''
      else if c = CHR 0xE9 then CHR ''e''
      else if c = CHR 0xED then CHR ''i''
      else if c = CHR 0xF3 then CHR ''o''
      else if c = CHR 0xFA then CHR ''u''
      else c)"

definition accentCollation :: "string \<Rightarrow> string \<Rightarrow> int" where
  "accentCollation x y =
     (if map baseLetter x < map baseLetter y then - 1
      else if map baseLetter y < map baseLetter x then 1
      else if x < y then - 1
      else if y < x then 1
      else 0)"

section \<open>Time series chart: summary statistics\<close>

text \<open>
  A point of the series.  An optional field is \<^const>\<open>None\<close> when the point
  does not carry it.  The values are JSON numbers, finite, held exactly.
\<close>

record TimeSeriesPoint =
  fecha' :: "string option"
  afluencia :: "rat option"
  mean :: "rat option"
  min' :: "rat option"
  max' :: "rat option"

text \<open>
  The value the tooltip shows for a point,
  \<open>data.afluencia !== undefined ? data.afluencia : data.mean\<close>.
\<close>

definition afluenciaValue :: "TimeSeriesPoint \<Rightarrow> rat option" where
  "afluenciaValue item = (if afluencia item \<noteq> None then afluencia item else mean item)"

text \<open>
  The figures as the specification words them: the primary value of a point
  (\<open>afluencia\<close>, else \<open>mean\<close>; a valid point has one of them), its \<open>max\<close>
  falling back to the primary value when \<open>max\<close> is absent, and its \<open>min\<close>
  likewise.
\<close>

definition primaryValue :: "TimeSeriesPoint \<Rightarrow> rat" where
  "primaryValue item = (case afluenciaValue item of Some v \<Rightarrow> v | None \<Rightarrow> 0)"

definition maxOrPrimary :: "TimeSeriesPoint \<Rightarrow> rat" where
  "maxOrPrimary item = (case max' item of Some v \<Rightarrow> v | None \<Rightarrow> primaryValue item)"

definition minOrPrimary :: "TimeSeriesPoint \<Rightarrow> rat" where
  "minOrPrimary item = (case min' item of Some v \<Rightarrow> v | None \<Rightarrow> primaryValue item)"

text \<open>
  The numbers the statistics can be: NaN, a finite value, or an infinity.
  Rounding of doubles is not modelled.
\<close>

datatype number = NaN | Num rat | PosInfinity | NegInfinity

text \<open>ToNumber of an operand that is a number or \<open>undefined\<close>.\<close>

fun toNumber :: "rat option \<Rightarrow> number" where
  "toNumber None = NaN"
| "toNumber (Some r) = Num r"

text \<open>\<open>a || b\<close> on such operands: \<open>a\<close> unless it is \<open>undefined\<close> or zero.\<close>

definition orElse :: "rat option \<Rightarrow> rat option \<Rightarrow> rat option" where
  "orElse a b = (if a \<noteq> None \<and> a \<noteq> Some 0 then a else b)"

fun add :: "number \<Rightarrow> number \<Rightarrow> number" where
  "add (Num a) (Num b) = Num (a + b)"
| "add NaN y = NaN"
| "add x NaN = NaN"
| "add PosInfinity NegInfinity = NaN"
| "add NegInfinity PosInfinity = NaN"
| "add PosInfinity y = PosInfinity"
| "add NegInfinity y = NegInfinity"
| "add x PosInfinity = PosInfinity"
| "add x NegInfinity = NegInfinity"

text \<open>Division by an array length.\<close>

fun divideBy :: "number \<Rightarrow> nat \<Rightarrow> number" where
  "divideBy (Num a) n =
     (if n \<noteq> 0 then Num (a / of_nat n)
      else if a = 0 then NaN
      else if a > 0 then PosInfinity else NegInfinity)"
| "divideBy x n = x"

fun max2 :: "number \<Rightarrow> number \<Rightarrow> number" where
  "max2 (Num a) (Num b) = Num (max a b)"
| "max2 NaN y = NaN"
| "max2 x NaN = NaN"
| "max2 PosInfinity y = PosInfinity"
| "max2 x PosInfinity = PosInfinity"
| "max2 NegInfinity y = y"
| "max2 x NegInfinity = x"

fun min2 :: "number \<Rightarrow> number \<Rightarrow> number" where
  "min2 (Num a) (Num b) = Num (min a b)"
| "min2 NaN y = NaN"
| "min2 x NaN = NaN"
| "min2 NegInfinity y = NegInfinity"
| "min2 x NegInfinity = NegInfinity"
| "min2 PosInfinity y = y"
| "min2 x PosInfinity = x"

text \<open>\<open>Math.max(...vs)\<close> and \<open>Math.min(...vs)\<close>.\<close>

definition mathMax :: "rat option list \<Rightarrow> number" where
  "mathMax vs = foldr (\<lambda>v acc. max2 (toNumber v) acc) vs NegInfinity"

definition mathMin :: "rat option list \<Rightarrow> number" where
  "mathMin vs = foldr (\<lambda>v acc. min2 (toNumber v) acc) vs PosInfinity"

definition validData :: "TimeSeriesPoint list \<Rightarrow> TimeSeriesPoint list" where
  "validData data =
     filter (\<lambda>item. \<not> missing (fecha' item) \<and> (afluencia item \<noteq> None \<or> mean item \<noteq> None)) data"

text \<open>
  The three figures of the statistics panel, as they are handed to
  \<open>formatNumber\<close>.
\<close>

record Statistics =
  promedio :: number
  maximo :: number
  minimo :: number

text \<open>
  The panel of \<open>TimeSeriesChart\<close>: \<^const>\<open>None\<close> when it is not rendered, that
  is for an empty series (the placeholder is shown) and when the first point of
  the series lacks \<open>min\<close> or \<open>max\<close>.
\<close>

fun statistics :: "TimeSeriesPoint list \<Rightarrow> Statistics option" where
  "statistics [] = None"
| "statistics (first # rest) =
     (let data = first # rest in
      if min' first \<noteq> None \<and> max' first \<noteq> None then
        Some \<lparr>promedio =
                 divideBy
                   (fold (\<lambda>item sum. add sum (toNumber (orElse (afluencia item) (mean item))))
                      (validData data) (Num 0))
                   (length (validData data)),
              maximo =
                 mathMax (map (\<lambda>item. orElse (orElse (max' item) (afluencia item)) (mean item))
                            (validData data)),
              minimo =
                 mathMin (map (\<lambda>item. orElse (orElse (min' item) (afluencia item)) (mean item))
                            (validData data))\<rparr>
      else None)"

section \<open>Properties of the forecast view\<close>


subsection \<open>Reading properties\<close>

lemma getProp_JObj [simp]: "getProp (JObj kvs) k = lookup kvs k"
  by (simp add: getProp_def)

lemma lookup_Nil [simp]: "lookup [] k = JUndefined"
  by (simp add: lookup_def)

lemma lookup_Cons [simp]:
  "lookup ((k, v) # al) k' = (if k' = k then v else lookup al k')"
  by (auto simp add: lookup_def)

lemma lookup_update [simp]:
  "lookup (AList.update k v al) k' = (if k' = k then v else lookup al k')"
  by (simp add: lookup_def update_conv')

lemma getProp_falsy: "\<not> truthy v \<Longrightarrow> getProp v k = JUndefined"
  by (cases v) (auto simp: getProp_def indexed_def)

lemma items_falsy: "\<not> truthy v \<Longrightarrow> items v = []"
  by (cases v) auto

subsection \<open>The sanitizer\<close>

lemma truthy_sanitizeArray [simp]: "truthy (sanitizeArray v)"
  by (cases v) auto

lemma isArray_sanitizeArray [simp]: "isArray (sanitizeArray v)"
  by (cases v) auto

lemma items_sanitizeArray_no_null: "JNull \<notin> set (items (sanitizeArray v))"
  by (cases v) auto

lemma elemAt_sanitizeArray [simp]: "elemAt (sanitizeArray v) i \<noteq> JNull"
  by (cases v) auto

lemma sanitized_train:
  "truthy data \<Longrightarrow>
   getProp (sanitizeForecastData data) ''train'' =
     (if truthy (getProp data ''train'') then
        JObj [(''dates'', sanitizeArray (getProp (getProp data ''train'') ''dates'')),
              (''actual'', sanitizeArray (getProp (getProp data ''train'') ''actual'')),
              (''fitted'', sanitizeArray (getProp (getProp data ''train'') ''fitted'')),
              (''lower'', sanitizeArray (getProp (getProp data ''train'') ''lower'')),
              (''upper'', sanitizeArray (getProp (getProp data ''train'') ''upper''))]
      else getProp data ''train'')"
  by (simp add: sanitizeForecastData_def Let_def getProp_def[of data])

lemma sanitized_test:
  "truthy data \<Longrightarrow>
   getProp (sanitizeForecastData data) ''test'' =
     (if truthy (getProp data ''test'') then
        JObj [(''dates'', sanitizeArray (getProp (getProp data ''test'') ''dates'')),
              (''actual'', sanitizeArray (getProp (getProp data ''test'') ''actual'')),
              (''predicted'', sanitizeArray (getProp (getProp data ''test'') ''predicted'')),
              (''lower'', sanitizeArray (getProp (getProp data ''test'') ''lower'')),
              (''upper'', sanitizeArray (getProp (getProp data ''test'') ''upper''))]
      else getProp data ''test'')"
  by (simp add: sanitizeForecastData_def Let_def getProp_def[of data])

lemma sanitized_forecast:
  "truthy data \<Longrightarrow>
   getProp (sanitizeForecastData data) ''forecast'' =
     (if truthy (getProp data ''forecast'') then
        JObj [(''dates'', sanitizeArray (getProp (getProp data ''forecast'') ''dates'')),
              (''predicted'', sanitizeArray (getProp (getProp data ''forecast'') ''predicted'')),
              (''lower'', sanitizeArray (getProp (getProp data ''forecast'') ''lower'')),
              (''upper'', sanitizeArray (getProp (getProp data ''forecast'') ''upper''))]
      else getProp data ''forecast'')"
  by (simp add: sanitizeForecastData_def Let_def getProp_def[of data])

lemma truthy_sanitizeForecastData: "truthy data \<Longrightarrow> truthy (sanitizeForecastData data)"
  by (simp add: sanitizeForecastData_def Let_def)

subsection \<open>The merge\<close>

lemma concat_guard_enumerate:
  "k + length ds \<le> n \<Longrightarrow>
   concat (map (\<lambda>(i, date). if i < n then [row date i] else []) (enumerate k ds))
     = map (\<lambda>(i, date). row date i) (enumerate k ds)"
  by (induction ds arbitrary: k) auto

lemma map_enumerate_upt:
  "map (\<lambda>(i, date). row date i) (enumerate 0 ds) = map (\<lambda>i. row (ds ! i) i) [0..<length ds]"
  by (rule nth_equalityI) (auto simp: nth_enumerate_eq)

lemma forEachPush_JArr:
  "forEachPush (JArr ds) row = Some (map (\<lambda>i. row (ds ! i) i) [0..<length ds])"
proof -
  have "forEachPush (JArr ds) row = Some (map (\<lambda>(i, date). row date i) (enumerate 0 ds))"
    by (simp add: forEachPush_def concat_guard_enumerate)
  then show ?thesis
    by (simp only: map_enumerate_upt)
qed

lemma forEachPush_Some:
  "forEachPush dates row = Some rows \<Longrightarrow>
   rows = map (\<lambda>i. row (items dates ! i) i) [0..<length (items dates)]"
  by (cases dates) (simp_all add: forEachPush_JArr, auto simp: forEachPush_def)

lemma trainRows_Some:
  assumes "trainRows train = Some rows"
  shows "rows = map (\<lambda>i. \<lparr>fecha = items (getProp train ''dates'') ! i,
                      actual = elemAt (getProp train ''actual'') i,
                      fitted = elemAt (getProp train ''fitted'') i,
                      validation_predicted = JUndefined,
                      predicted = JUndefined,
                      lower = elemAt (getProp train ''lower'') i,
                      upper = elemAt (getProp train ''upper'') i,
                      type = ''train''\<rparr>) [0..<length (items (getProp train ''dates''))]"
proof (cases "truthy train \<and> truthy (getProp train ''dates'')")
  case True
  with assms show ?thesis
    by (simp add: trainRows_def) (erule forEachPush_Some)
next
  case False
  then have "items (getProp train ''dates'') = []"
    by (auto simp: items_falsy getProp_falsy)
  with False assms show ?thesis
    by (auto simp: trainRows_def)
qed

lemma testRows_Some:
  assumes "testRows test = Some rows"
  shows "rows = map (\<lambda>i. \<lparr>fecha = items (getProp test ''dates'') ! i,
                      actual = elemAt (getProp test ''actual'') i,
                      fitted = JUndefined,
                      validation_predicted = elemAt (getProp test ''predicted'') i,
                      predicted = JUndefined,
                      lower = elemAt (getProp test ''lower'') i,
                      upper = elemAt (getProp test ''upper'') i,
                      type = ''test''\<rparr>) [0..<length (items (getProp test ''dates''))]"
proof (cases "truthy test \<and> truthy (getProp test ''dates'')")
  case True
  with assms show ?thesis
    by (simp add: testRows_def) (erule forEachPush_Some)
next
  case False
  then have "items (getProp test ''dates'') = []"
    by (auto simp: items_falsy getProp_falsy)
  with False assms show ?thesis
    by (auto simp: testRows_def)
qed

lemma futureRows_Some:
  assumes "futureRows forecast = Some rows"
  shows "rows = map (\<lambda>i. \<lparr>fecha = items (getProp forecast ''dates'') ! i,
                      actual = JUndefined,
                      fitted = JUndefined,
                      validation_predicted = JUndefined,
                      predicted = elemAt (getProp forecast ''predicted'') i,
                      lower = elemAt (getProp forecast ''lower'') i,
                      upper = elemAt (getProp forecast ''upper'') i,
                      type = ''future''\<rparr>) [0..<length (items (getProp forecast ''dates''))]"
proof (cases "truthy forecast \<and> truthy (getProp forecast ''dates'')")
  case True
  with assms show ?thesis
    by (simp add: futureRows_def) (erule forEachPush_Some)
next
  case False
  then have "items (getProp forecast ''dates'') = []"
    by (auto simp: items_falsy getProp_falsy)
  with False assms show ?thesis
    by (auto simp: futureRows_def)
qed

lemma mergeChartData_Some:
  "mergeChartData fd = Some chartData \<longleftrightarrow>
   (\<exists>tr te fu. trainRows (getProp fd ''train'') = Some tr
      \<and> testRows (getProp fd ''test'') = Some te
      \<and> futureRows (getProp fd ''forecast'') = Some fu
      \<and> chartData = tr @ te @ fu)"
  by (auto simp: mergeChartData_def split: option.splits)

text \<open>On sanitized data no block of the merge raises.\<close>

lemma rows_defined_if_array:
  "\<not> truthy s \<or> isArray (getProp s ''dates'') \<Longrightarrow>
   trainRows s \<noteq> None \<and> testRows s \<noteq> None \<and> futureRows s \<noteq> None"
  by (cases "getProp s ''dates''")
     (auto simp: trainRows_def testRows_def futureRows_def forEachPush_def)

lemma sanitized_dates_array:
  assumes "truthy data" and "k \<in> {''train'', ''test'', ''forecast''}"
  shows "\<not> truthy (getProp (sanitizeForecastData data) k)
         \<or> isArray (getProp (getProp (sanitizeForecastData data) k) ''dates'')"
  using assms by (auto simp: sanitized_train sanitized_test sanitized_forecast)

lemma mergeChartData_sanitized:
  assumes "truthy data"
  shows "\<exists>chartData. mergeChartData (sanitizeForecastData data) = Some chartData"
proof -
  let ?fd = "sanitizeForecastData data"
  have "trainRows (getProp ?fd ''train'') \<noteq> None"
    using rows_defined_if_array sanitized_dates_array [OF assms, of "''train''"] by blast
  moreover have "testRows (getProp ?fd ''test'') \<noteq> None"
    using rows_defined_if_array sanitized_dates_array [OF assms, of "''test''"] by blast
  moreover have "futureRows (getProp ?fd ''forecast'') \<noteq> None"
    using rows_defined_if_array sanitized_dates_array [OF assms, of "''forecast''"] by blast
  ultimately show ?thesis
    by (auto simp: mergeChartData_def split: option.splits)
qed

subsection \<open>The sort\<close>

lemma mset_insertSorted [simp]: "mset (insertSorted c x ys) = add_mset x (mset ys)"
  by (induction ys) auto

lemma mset_sortBy [simp]: "mset (sortBy c xs) = mset xs"
  by (induction xs) auto

lemma set_sortBy [simp]: "set (sortBy c xs) = set xs"
  by (metis mset_sortBy set_mset_mset)

lemma length_sortBy [simp]: "length (sortBy c xs) = length xs"
  by (metis mset_sortBy size_mset)

text \<open>A comparator that is never positive leaves the array as it is.\<close>

lemma sortBy_unchanged:
  "(\<forall>a b. sortCompare c a b \<le> 0) \<Longrightarrow> sortBy c xs = xs"
proof (induction xs)
  case Nil
  show ?case by simp
next
  case (Cons x xs)
  have "\<not> 0 < sortCompare c x y" for y
    using Cons.prems by (simp add: not_less)
  then have "insertSorted c x xs = x # xs"
    by (cases xs) auto
  with Cons show ?case by simp
qed

text \<open>Rows that one predicate never lets pass each other keep their order.\<close>

lemma filter_insertSorted:
  assumes "\<And>y. P x \<Longrightarrow> P y \<Longrightarrow> sortCompare c x y \<le> 0"
  shows "filter P (insertSorted c x ys) = filter P (x # ys)"
proof (induction ys)
  case Nil
  show ?case by simp
next
  case (Cons y ys)
  show ?case
  proof (cases "0 < sortCompare c x y")
    case True
    then have "\<not> (P x \<and> P y)"
      using assms [of y] by auto
    with True Cons show ?thesis by auto
  next
    case False
    then show ?thesis by simp
  qed
qed

lemma filter_sortBy:
  assumes "\<And>x y. P x \<Longrightarrow> P y \<Longrightarrow> sortCompare c x y \<le> 0"
  shows "filter P (sortBy c xs) = filter P xs"
proof (induction xs)
  case Nil
  show ?case by simp
next
  case (Cons x xs)
  have "filter P (sortBy c (x # xs)) = filter P (x # sortBy c xs)"
    using assms by (simp add: filter_insertSorted)
  with Cons show ?case by simp
qed

text \<open>With an antisymmetric and transitive comparator the result is sorted.\<close>

lemma sorted_wrt_insertSorted:
  assumes anti: "\<And>a b. 0 < sortCompare c a b \<Longrightarrow> sortCompare c b a \<le> 0"
    and trans: "\<And>a b d. sortCompare c a b \<le> 0 \<Longrightarrow> sortCompare c b d \<le> 0 \<Longrightarrow> sortCompare c a d \<le> 0"
    and "sorted_wrt (\<lambda>a b. sortCompare c a b \<le> 0) ys"
  shows "sorted_wrt (\<lambda>a b. sortCompare c a b \<le> 0) (insertSorted c x ys)"
  using assms(3)
proof (induction ys)
  case Nil
  show ?case by simp
next
  case (Cons y ys)
  show ?case
  proof (cases "0 < sortCompare c x y")
    case False
    then have "sortCompare c x y \<le> 0" by simp
    with Cons.prems trans show ?thesis
      by (auto simp: not_less)
  next
    case True
    then have "sortCompare c y x \<le> 0" by (rule anti)
    moreover have "set (insertSorted c x ys) = insert x (set ys)"
      by (metis mset_insertSorted set_mset_add_mset_insert set_mset_mset)
    ultimately show ?thesis
      using Cons True by auto
  qed
qed

lemma sorted_wrt_sortBy:
  assumes "\<And>a b. 0 < sortCompare c a b \<Longrightarrow> sortCompare c b a \<le> 0"
    and "\<And>a b d. sortCompare c a b \<le> 0 \<Longrightarrow> sortCompare c b d \<le> 0 \<Longrightarrow> sortCompare c a d \<le> 0"
  shows "sorted_wrt (\<lambda>a b. sortCompare c a b \<le> 0) (sortBy c xs)"
  by (induction xs) (auto intro: sorted_wrt_insertSorted assms)

subsection \<open>The date comparator\<close>

lemma sortCompare_compareFecha:
  "sortCompare (compareFecha tv) a b =
     (case tv (fecha a) of None \<Rightarrow> 0
      | Some x \<Rightarrow> (case tv (fecha b) of None \<Rightarrow> 0 | Some y \<Rightarrow> x - y))"
  by (simp add: sortCompare_def compareFecha_def split: option.splits)

lemma compareFecha_anti:
  "0 < sortCompare (compareFecha tv) a b \<Longrightarrow> sortCompare (compareFecha tv) b a \<le> 0"
  by (auto simp: sortCompare_compareFecha split: option.splits)

lemma insertSorted_insort_key:
  assumes "tv (fecha x) \<noteq> None" and "\<forall>y\<in>set ys. tv (fecha y) \<noteq> None"
  shows "insertSorted (compareFecha tv) x ys = insort_key (\<lambda>r. the (tv (fecha r))) x ys"
  using assms by (induction ys) (auto simp: sortCompare_compareFecha)

lemma sortBy_sort_key:
  assumes "\<forall>y\<in>set xs. tv (fecha y) \<noteq> None"
  shows "sortBy (compareFecha tv) xs = sort_key (\<lambda>r. the (tv (fecha r))) xs"
  using assms by (induction xs) (auto simp: insertSorted_insort_key)

lemma sortBy_sorted_stable:
  assumes "\<forall>y\<in>set xs. tv (fecha y) \<noteq> None"
  shows "sorted (map (\<lambda>r. the (tv (fecha r))) (sortBy (compareFecha tv) xs))"
    and "filter (\<lambda>r. tv (fecha r) = Some k) (sortBy (compareFecha tv) xs)
           = filter (\<lambda>r. tv (fecha r) = Some k) xs"
proof -
  show "sorted (map (\<lambda>r. the (tv (fecha r))) (sortBy (compareFecha tv) xs))"
    by (simp add: sortBy_sort_key [OF assms])
  show "filter (\<lambda>r. tv (fecha r) = Some k) (sortBy (compareFecha tv) xs)
           = filter (\<lambda>r. tv (fecha r) = Some k) xs"
    by (rule filter_sortBy) (auto simp: sortCompare_compareFecha)
qed

lemma sortBy_keeps_invalid:
  "filter (\<lambda>r. tv (fecha r) = None) (sortBy (compareFecha tv) xs)
     = filter (\<lambda>r. tv (fecha r) = None) xs"
  by (rule filter_sortBy) (auto simp: sortCompare_compareFecha)

subsection \<open>The mode filter\<close>

lemma filterByMode_one:
  "m \<in> {''train'', ''test'', ''future''} \<Longrightarrow>
   filterByMode m xs = filter (\<lambda>d. type d = m) xs"
  by (auto simp: filterByMode_def)

lemma filterByMode_idem: "filterByMode m (filterByMode m xs) = filterByMode m xs"
  by (auto simp: filterByMode_def cong: conj_cong)

lemma types_of_rows:
  "trainRows s = Some tr \<Longrightarrow> r \<in> set tr \<Longrightarrow> type r = ''train''"
  "testRows s = Some te \<Longrightarrow> r \<in> set te \<Longrightarrow> type r = ''test''"
  "futureRows s = Some fu \<Longrightarrow> r \<in> set fu \<Longrightarrow> type r = ''future''"
  by (auto dest!: trainRows_Some testRows_Some futureRows_Some)

lemma filterByMode_all_merged:
  assumes "mergeChartData fd = Some chartData"
  shows "filterByMode ''all'' chartData = chartData"
proof -
  from assms obtain tr te fu where
    tr: "trainRows (getProp fd ''train'') = Some tr" and
    te: "testRows (getProp fd ''test'') = Some te" and
    fu: "futureRows (getProp fd ''forecast'') = Some fu" and
    c: "chartData = tr @ te @ fu"
    by (auto simp: mergeChartData_Some)
  have "\<forall>r\<in>set tr. type r = ''train''" "\<forall>r\<in>set te. type r = ''test''"
       "\<forall>r\<in>set fu. type r = ''future''"
    using tr te fu types_of_rows by blast+
  then have "filter (\<lambda>d. type d = ''train'') chartData = tr"
    "filter (\<lambda>d. type d = ''test'') chartData = te"
    "filter (\<lambda>d. type d = ''future'') chartData = fu"
    unfolding c by (auto simp: filter_empty_conv filter_id_conv)
  then show ?thesis
    unfolding c by (simp add: filterByMode_def)
qed

lemma prepareChartData_merged:
  "truthy fd \<Longrightarrow> mergeChartData fd = Some chartData \<Longrightarrow>
   prepareChartData tv fd m = sortBy (compareFecha tv) (filterByMode m chartData)"
  by (simp add: prepareChartData_def)

lemma mset_prepareChartData_all:
  assumes "truthy fd" and "mergeChartData fd = Some chartData"
  shows "mset (prepareChartData tv fd ''all'') = mset chartData"
  using assms by (simp add: prepareChartData_merged filterByMode_all_merged)

subsection \<open>The merge of sanitized data\<close>

lemma sanitized_rows_no_null:
  assumes "truthy data"
  shows "trainRows (getProp (sanitizeForecastData data) ''train'') = Some tr \<Longrightarrow> r \<in> set tr \<Longrightarrow> \<not> hasNull r"
    and "testRows (getProp (sanitizeForecastData data) ''test'') = Some te \<Longrightarrow> r \<in> set te \<Longrightarrow> \<not> hasNull r"
    and "futureRows (getProp (sanitizeForecastData data) ''forecast'') = Some fu \<Longrightarrow> r \<in> set fu \<Longrightarrow> \<not> hasNull r"
proof -
  have nth: "i < length (items (sanitizeArray v)) \<Longrightarrow> JNull \<noteq> items (sanitizeArray v) ! i"
    "JNull \<noteq> elemAt (sanitizeArray v) i" for i v
    using items_sanitizeArray_no_null [of v] elemAt_sanitizeArray [of v i] by (metis nth_mem, metis)
  show "trainRows (getProp (sanitizeForecastData data) ''train'') = Some tr \<Longrightarrow> r \<in> set tr \<Longrightarrow> \<not> hasNull r"
    by (cases "truthy (getProp data ''train'')")
       (auto dest!: trainRows_Some simp: sanitized_train [OF assms] hasNull_def nth items_falsy getProp_falsy)
  show "testRows (getProp (sanitizeForecastData data) ''test'') = Some te \<Longrightarrow> r \<in> set te \<Longrightarrow> \<not> hasNull r"
    by (cases "truthy (getProp data ''test'')")
       (auto dest!: testRows_Some simp: sanitized_test [OF assms] hasNull_def nth items_falsy getProp_falsy)
  show "futureRows (getProp (sanitizeForecastData data) ''forecast'') = Some fu \<Longrightarrow> r \<in> set fu \<Longrightarrow> \<not> hasNull r"
    by (cases "truthy (getProp data ''forecast'')")
       (auto dest!: futureRows_Some simp: sanitized_forecast [OF assms] hasNull_def nth items_falsy getProp_falsy)
qed

lemma set_filterByMode: "set (filterByMode m xs) \<subseteq> set xs"
  by (auto simp: filterByMode_def)

lemma prepareChartData_rows:
  assumes "r \<in> set (prepareChartData tv fd m)"
  obtains tr te fu where "truthy fd"
    and "trainRows (getProp fd ''train'') = Some tr"
    and "testRows (getProp fd ''test'') = Some te"
    and "futureRows (getProp fd ''forecast'') = Some fu"
    and "r \<in> set tr \<union> set te \<union> set fu"
proof -
  from assms have t: "truthy fd"
    by (auto simp: prepareChartData_def split: if_splits)
  from assms t obtain chartData where c: "mergeChartData fd = Some chartData"
    by (cases "mergeChartData fd") (auto simp: prepareChartData_def)
  with assms t have "r \<in> set chartData"
    using set_filterByMode by (auto simp: prepareChartData_merged)
  with c t that show thesis
    by (auto simp: mergeChartData_Some)
qed

lemma sanitized_chart_no_null:
  assumes "r \<in> set (prepareChartData tv (sanitizeForecastData data) m)"
  shows "\<not> hasNull r"
proof -
  have t: "truthy data"
  proof (rule ccontr)
    assume "\<not> truthy data"
    then have "prepareChartData tv (sanitizeForecastData data) m = []"
      by (simp add: sanitizeForecastData_def prepareChartData_def)
    with assms show False by simp
  qed
  from assms show ?thesis
    by (rule prepareChartData_rows) (auto dest: sanitized_rows_no_null [OF t])
qed

lemma train_example_merge:
  "mergeChartData
       (sanitizeForecastData
          (JObj [(''train'', JObj [(''dates'', JArr [JStr d1, JStr d2]),
                                   (''actual'', JArr [JNum 10, JNull]),
                                   (''fitted'', JArr [JNum 9, JNum 11])])]))
     = Some [\<lparr>fecha = JStr d1, actual = JNum 10, fitted = JNum 9,
          validation_predicted = JUndefined, predicted = JUndefined,
          lower = JUndefined, upper = JUndefined, type = ''train''\<rparr>,
        \<lparr>fecha = JStr d2, actual = JUndefined, fitted = JNum 11,
          validation_predicted = JUndefined, predicted = JUndefined,
          lower = JUndefined, upper = JUndefined, type = ''train''\<rparr>]"
  by (simp add: sanitizeForecastData_def mergeChartData_def trainRows_def testRows_def
        futureRows_def forEachPush_JArr upt_rec)

lemma train_example_rows:
  "mset (prepareChartData tv
       (sanitizeForecastData
          (JObj [(''train'', JObj [(''dates'', JArr [JStr d1, JStr d2]),
                                   (''actual'', JArr [JNum 10, JNull]),
                                   (''fitted'', JArr [JNum 9, JNum 11])])]))
       ''all'')
     = mset [\<lparr>fecha = JStr d1, actual = JNum 10, fitted = JNum 9,
          validation_predicted = JUndefined, predicted = JUndefined,
          lower = JUndefined, upper = JUndefined, type = ''train''\<rparr>,
        \<lparr>fecha = JStr d2, actual = JUndefined, fitted = JNum 11,
          validation_predicted = JUndefined, predicted = JUndefined,
          lower = JUndefined, upper = JUndefined, type = ''train''\<rparr>]"
  by (rule mset_prepareChartData_all [OF _ train_example_merge])
     (simp add: sanitizeForecastData_def)

lemma train_example:
  assumes "\<forall>x y. tv (JStr d1) = Some x \<longrightarrow> tv (JStr d2) = Some y \<longrightarrow> x \<le> y"
  shows "prepareChartData tv
       (sanitizeForecastData
          (JObj [(''train'', JObj [(''dates'', JArr [JStr d1, JStr d2]),
                                   (''actual'', JArr [JNum 10, JNull]),
                                   (''fitted'', JArr [JNum 9, JNum 11])])]))
       ''all''
     = [\<lparr>fecha = JStr d1, actual = JNum 10, fitted = JNum 9,
          validation_predicted = JUndefined, predicted = JUndefined,
          lower = JUndefined, upper = JUndefined, type = ''train''\<rparr>,
        \<lparr>fecha = JStr d2, actual = JUndefined, fitted = JNum 11,
          validation_predicted = JUndefined, predicted = JUndefined,
          lower = JUndefined, upper = JUndefined, type = ''train''\<rparr>]"
  using assms train_example_merge [of d1 d2]
  by (auto simp: prepareChartData_def sanitizeForecastData_def filterByMode_def
        sortCompare_compareFecha split: option.splits)

lemma items_sanitizeArray: "items (sanitizeArray arr) = map nullToAbsent (items arr)"
  by (cases arr) (simp_all add: nullToAbsent_def)

lemma elemAt_sanitizeArray_entryAt: "elemAt (sanitizeArray arr) i = entryAt arr i"
  by (cases arr) (simp_all add: entryAt_def nullToAbsent_def)

lemma forEachPush_sanitizeArray:
  "forEachPush (sanitizeArray d) row
     = Some (map (\<lambda>i. row (nullToAbsent (items d ! i)) i) [0..<length (items d)])"
  by (cases d) (simp_all add: forEachPush_JArr nullToAbsent_def)

lemma trainRows_sanitized:
  assumes "truthy data"
  shows "trainRows (getProp (sanitizeForecastData data) ''train'') =
    Some (map (\<lambda>i. \<lparr>fecha = nullToAbsent (items (getProp (getProp data ''train'') ''dates'') ! i),
                      actual = entryAt (getProp (getProp data ''train'') ''actual'') i,
                      fitted = entryAt (getProp (getProp data ''train'') ''fitted'') i,
                      validation_predicted = JUndefined,
                      predicted = JUndefined,
                      lower = entryAt (getProp (getProp data ''train'') ''lower'') i,
                      upper = entryAt (getProp (getProp data ''train'') ''upper'') i,
                      type = ''train''\<rparr>)
            [0..<length (items (getProp (getProp data ''train'') ''dates''))])"
proof (cases "truthy (getProp data ''train'')")
  case True
  show ?thesis
    unfolding sanitized_train [OF assms] if_P [OF True]
    by (simp add: trainRows_def forEachPush_sanitizeArray elemAt_sanitizeArray_entryAt)
next
  case False
  then have "items (getProp (getProp data ''train'') ''dates'') = []"
    by (simp add: getProp_falsy)
  with False show ?thesis
    by (simp add: sanitized_train [OF assms] trainRows_def)
qed

lemma testRows_sanitized:
  assumes "truthy data"
  shows "testRows (getProp (sanitizeForecastData data) ''test'') =
    Some (map (\<lambda>i. \<lparr>fecha = nullToAbsent (items (getProp (getProp data ''test'') ''dates'') ! i),
                      actual = entryAt (getProp (getProp data ''test'') ''actual'') i,
                      fitted = JUndefined,
                      validation_predicted = entryAt (getProp (getProp data ''test'') ''predicted'') i,
                      predicted = JUndefined,
                      lower = entryAt (getProp (getProp data ''test'') ''lower'') i,
                      upper = entryAt (getProp (getProp data ''test'') ''upper'') i,
                      type = ''test''\<rparr>)
            [0..<length (items (getProp (getProp data ''test'') ''dates''))])"
proof (cases "truthy (getProp data ''test'')")
  case True
  show ?thesis
    unfolding sanitized_test [OF assms] if_P [OF True]
    by (simp add: testRows_def forEachPush_sanitizeArray elemAt_sanitizeArray_entryAt)
next
  case False
  then have "items (getProp (getProp data ''test'') ''dates'') = []"
    by (simp add: getProp_falsy)
  with False show ?thesis
    by (simp add: sanitized_test [OF assms] testRows_def)
qed

lemma futureRows_sanitized:
  assumes "truthy data"
  shows "futureRows (getProp (sanitizeForecastData data) ''forecast'') =
    Some (map (\<lambda>i. \<lparr>fecha = nullToAbsent (items (getProp (getProp data ''forecast'') ''dates'') ! i),
                      actual = JUndefined,
                      fitted = JUndefined,
                      validation_predicted = JUndefined,
                      predicted = entryAt (getProp (getProp data ''forecast'') ''predicted'') i,
                      lower = entryAt (getProp (getProp data ''forecast'') ''lower'') i,
                      upper = entryAt (getProp (getProp data ''forecast'') ''upper'') i,
                      type = ''future''\<rparr>)
            [0..<length (items (getProp (getProp data ''forecast'') ''dates''))])"
proof (cases "truthy (getProp data ''forecast'')")
  case True
  show ?thesis
    unfolding sanitized_forecast [OF assms] if_P [OF True]
    by (simp add: futureRows_def forEachPush_sanitizeArray elemAt_sanitizeArray_entryAt)
next
  case False
  then have "items (getProp (getProp data ''forecast'') ''dates'') = []"
    by (simp add: getProp_falsy)
  with False show ?thesis
    by (simp add: sanitized_forecast [OF assms] futureRows_def)
qed

lemma mergeChartData_sanitized_rows:
  assumes "truthy data"
  shows "mergeChartData (sanitizeForecastData data) =
    Some (map (\<lambda>i. \<lparr>fecha = nullToAbsent (items (getProp (getProp data ''train'') ''dates'') ! i),
                      actual = entryAt (getProp (getProp data ''train'') ''actual'') i,
                      fitted = entryAt (getProp (getProp data ''train'') ''fitted'') i,
                      validation_predicted = JUndefined,
                      predicted = JUndefined,
                      lower = entryAt (getProp (getProp data ''train'') ''lower'') i,
                      upper = entryAt (getProp (getProp data ''train'') ''upper'') i,
                      type = ''train''\<rparr>)
            [0..<length (items (getProp (getProp data ''train'') ''dates''))]
      @ map (\<lambda>i. \<lparr>fecha = nullToAbsent (items (getProp (getProp data ''test'') ''dates'') ! i),
                      actual = entryAt (getProp (getProp data ''test'') ''actual'') i,
                      fitted = JUndefined,
                      validation_predicted = entryAt (getProp (getProp data ''test'') ''predicted'') i,
                      predicted = JUndefined,
                      lower = entryAt (getProp (getProp data ''test'') ''lower'') i,
                      upper = entryAt (getProp (getProp data ''test'') ''upper'') i,
                      type = ''test''\<rparr>)
            [0..<length (items (getProp (getProp data ''test'') ''dates''))]
      @ map (\<lambda>i. \<lparr>fecha = nullToAbsent (items (getProp (getProp data ''forecast'') ''dates'') ! i),
                      actual = JUndefined,
                      fitted = JUndefined,
                      validation_predicted = JUndefined,
                      predicted = entryAt (getProp (getProp data ''forecast'') ''predicted'') i,
                      lower = entryAt (getProp (getProp data ''forecast'') ''lower'') i,
                      upper = entryAt (getProp (getProp data ''forecast'') ''upper'') i,
                      type = ''future''\<rparr>)
            [0..<length (items (getProp (getProp data ''forecast'') ''dates''))])"
  by (simp only: mergeChartData_def trainRows_sanitized [OF assms] testRows_sanitized [OF assms]
        futureRows_sanitized [OF assms] option.case)

text \<open>
  C1.  The sanitizer replaces in place: a sanitized array has the entries of the
  response array, at their indices, with \<open>undefined\<close> where the entry was
  \<open>null\<close>.  So the table merged from sanitized data has, for each sub-series,
  one row per date, and row \<open>i\<close> holds entry \<open>i\<close> of every array of the
  response, \<open>undefined\<close> standing for a \<open>null\<close>, for a missing array and for
  a missing entry; whatever the response and the mode, no field of any row of the
  chart data is \<open>null\<close>.  For the bundle with \<open>train.dates = [d1, d2]\<close>,
  \<open>train.actual = [10, null]\<close> and \<open>train.fitted = [9, 11]\<close> the chart data
  are exactly two rows tagged \<open>train\<close>, the row of \<open>d1\<close> with \<open>actual = 10\<close>
  and \<open>fitted = 9\<close> and the row of \<open>d2\<close> with \<open>actual\<close> undefined and
  \<open>fitted = 11\<close>; with \<open>d1\<close> not after \<open>d2\<close> they are in this order.
\<close>

theorem sanitized_merge_null_free:
  "(\<forall>r\<in>set (prepareChartData tv (sanitizeForecastData data) m). \<not> hasNull r)
   \<and> sanitizeArray (JArr xs) = JArr (map nullToAbsent xs)
   \<and> (truthy data \<longrightarrow>
        mergeChartData (sanitizeForecastData data) =
          Some (map (\<lambda>i. \<lparr>fecha = nullToAbsent (items (getProp (getProp data ''train'') ''dates'') ! i),
                      actual = entryAt (getProp (getProp data ''train'') ''actual'') i,
                      fitted = entryAt (getProp (getProp data ''train'') ''fitted'') i,
                      validation_predicted = JUndefined,
                      predicted = JUndefined,
                      lower = entryAt (getProp (getProp data ''train'') ''lower'') i,
                      upper = entryAt (getProp (getProp data ''train'') ''upper'') i,
                      type = ''train''\<rparr>)
            [0..<length (items (getProp (getProp data ''train'') ''dates''))]
      @ map (\<lambda>i. \<lparr>fecha = nullToAbsent (items (getProp (getProp data ''test'') ''dates'') ! i),
                      actual = entryAt (getProp (getProp data ''test'') ''actual'') i,
                      fitted = JUndefined,
                      validation_predicted = entryAt (getProp (getProp data ''test'') ''predicted'') i,
                      predicted = JUndefined,
                      lower = entryAt (getProp (getProp data ''test'') ''lower'') i,
                      upper = entryAt (getProp (getProp data ''test'') ''upper'') i,
                      type = ''test''\<rparr>)
            [0..<length (items (getProp (getProp data ''test'') ''dates''))]
      @ map (\<lambda>i. \<lparr>fecha = nullToAbsent (items (getProp (getProp data ''forecast'') ''dates'') ! i),
                      actual = JUndefined,
                      fitted = JUndefined,
                      validation_predicted = JUndefined,
                      predicted = entryAt (getProp (getProp data ''forecast'') ''predicted'') i,
                      lower = entryAt (getProp (getProp data ''forecast'') ''lower'') i,
                      upper = entryAt (getProp (getProp data ''forecast'') ''upper'') i,
                      type = ''future''\<rparr>)
            [0..<length (items (getProp (getProp data ''forecast'') ''dates''))]))
   \<and> mset (prepareChartData tv
        (sanitizeForecastData
           (JObj [(''train'', JObj [(''dates'', JArr [JStr d1, JStr d2]),
                                    (''actual'', JArr [JNum 10, JNull]),
                                    (''fitted'', JArr [JNum 9, JNum 11])])]))
        ''all'')
      = mset [\<lparr>fecha = JStr d1, actual = JNum 10, fitted = JNum 9,
           validation_predicted = JUndefined, predicted = JUndefined,
           lower = JUndefined, upper = JUndefined, type = ''train''\<rparr>,
         \<lparr>fecha = JStr d2, actual = JUndefined, fitted = JNum 11,
           validation_predicted = JUndefined, predicted = JUndefined,
           lower = JUndefined, upper = JUndefined, type = ''train''\<rparr>]
   \<and> ((\<forall>x y. tv (JStr d1) = Some x \<longrightarrow> tv (JStr d2) = Some y \<longrightarrow> x \<le> y) \<longrightarrow>
      prepareChartData tv
        (sanitizeForecastData
           (JObj [(''train'', JObj [(''dates'', JArr [JStr d1, JStr d2]),
                                    (''actual'', JArr [JNum 10, JNull]),
                                    (''fitted'', JArr [JNum 9, JNum 11])])]))
        ''all''
      = [\<lparr>fecha = JStr d1, actual = JNum 10, fitted = JNum 9,
           validation_predicted = JUndefined, predicted = JUndefined,
           lower = JUndefined, upper = JUndefined, type = ''train''\<rparr>,
         \<lparr>fecha = JStr d2, actual = JUndefined, fitted = JNum 11,
           validation_predicted = JUndefined, predicted = JUndefined,
           lower = JUndefined, upper = JUndefined, type = ''train''\<rparr>])"
proof (intro conjI impI ballI)
  show "\<not> hasNull r" if "r \<in> set (prepareChartData tv (sanitizeForecastData data) m)" for r
    using that by (rule sanitized_chart_no_null)
  show "sanitizeArray (JArr xs) = JArr (map nullToAbsent xs)"
    by (simp add: nullToAbsent_def)
  show "mergeChartData (sanitizeForecastData data) =
          Some (map (\<lambda>i. \<lparr>fecha = nullToAbsent (items (getProp (getProp data ''train'') ''dates'') ! i),
                      actual = entryAt (getProp (getProp data ''train'') ''actual'') i,
                      fitted = entryAt (getProp (getProp data ''train'') ''fitted'') i,
                      validation_predicted = JUndefined,
                      predicted = JUndefined,
                      lower = entryAt (getProp (getProp data ''train'') ''lower'') i,
                      upper = entryAt (getProp (getProp data ''train'') ''upper'') i,
                      type = ''train''\<rparr>)
            [0..<length (items (getProp (getProp data ''train'') ''dates''))]
      @ map (\<lambda>i. \<lparr>fecha = nullToAbsent (items (getProp (getProp data ''test'') ''dates'') ! i),
                      actual = entryAt (getProp (getProp data ''test'') ''actual'') i,
                      fitted = JUndefined,
                      validation_predicted = entryAt (getProp (getProp data ''test'') ''predicted'') i,
                      predicted = JUndefined,
                      lower = entryAt (getProp (getProp data ''test'') ''lower'') i,
                      upper = entryAt (getProp (getProp data ''test'') ''upper'') i,
                      type = ''test''\<rparr>)
            [0..<length (items (getProp (getProp data ''test'') ''dates''))]
      @ map (\<lambda>i. \<lparr>fecha = nullToAbsent (items (getProp (getProp data ''forecast'') ''dates'') ! i),
                      actual = JUndefined,
                      fitted = JUndefined,
                      validation_predicted = JUndefined,
                      predicted = entryAt (getProp (getProp data ''forecast'') ''predicted'') i,
                      lower = entryAt (getProp (getProp data ''forecast'') ''lower'') i,
                      upper = entryAt (getProp (getProp data ''forecast'') ''upper'') i,
                      type = ''future''\<rparr>)
            [0..<length (items (getProp (getProp data ''forecast'') ''dates''))])"
    if "truthy data"
    using that by (rule mergeChartData_sanitized_rows)
  show "mset (prepareChartData tv
        (sanitizeForecastData
           (JObj [(''train'', JObj [(''dates'', JArr [JStr d1, JStr d2]),
                                    (''actual'', JArr [JNum 10, JNull]),
                                    (''fitted'', JArr [JNum 9, JNum 11])])]))
        ''all'')
      = mset [\<lparr>fecha = JStr d1, actual = JNum 10, fitted = JNum 9,
           validation_predicted = JUndefined, predicted = JUndefined,
           lower = JUndefined, upper = JUndefined, type = ''train''\<rparr>,
         \<lparr>fecha = JStr d2, actual = JUndefined, fitted = JNum 11,
           validation_predicted = JUndefined, predicted = JUndefined,
           lower = JUndefined, upper = JUndefined, type = ''train''\<rparr>]"
    by (rule train_example_rows)
  show "prepareChartData tv
        (sanitizeForecastData
           (JObj [(''train'', JObj [(''dates'', JArr [JStr d1, JStr d2]),
                                    (''actual'', JArr [JNum 10, JNull]),
                                    (''fitted'', JArr [JNum 9, JNum 11])])]))
        ''all''
      = [\<lparr>fecha = JStr d1, actual = JNum 10, fitted = JNum 9,
           validation_predicted = JUndefined, predicted = JUndefined,
           lower = JUndefined, upper = JUndefined, type = ''train''\<rparr>,
         \<lparr>fecha = JStr d2, actual = JUndefined, fitted = JNum 11,
           validation_predicted = JUndefined, predicted = JUndefined,
           lower = JUndefined, upper = JUndefined, type = ''train''\<rparr>]"
    if "\<forall>x y. tv (JStr d1) = Some x \<longrightarrow> tv (JStr d2) = Some y \<longrightarrow> x \<le> y"
    using that by (rule train_example)
qed

theorem sanitized_merge_null_free_witness:
  "prepareChartData months2021
        (sanitizeForecastData
           (JObj [(''train'', JObj [(''dates'', JArr [JStr ''2021-01'', JStr ''2021-02'']),
                                    (''actual'', JArr [JNum 10, JNull]),
                                    (''fitted'', JArr [JNum 9, JNum 11])])]))
        ''all''
      = [\<lparr>fecha = JStr ''2021-01'', actual = JNum 10, fitted = JNum 9,
           validation_predicted = JUndefined, predicted = JUndefined,
           lower = JUndefined, upper = JUndefined, type = ''train''\<rparr>,
         \<lparr>fecha = JStr ''2021-02'', actual = JUndefined, fitted = JNum 11,
           validation_predicted = JUndefined, predicted = JUndefined,
           lower = JUndefined, upper = JUndefined, type = ''train''\<rparr>]
   \<and> list_all (\<lambda>r. \<not> hasNull r)
        (prepareChartData months2021
          (sanitizeForecastData
           (JObj [(''train'', JObj [(''dates'', JArr [JStr ''2021-01'', JStr ''2021-02'']),
                                    (''actual'', JArr [JNum 10, JNull]),
                                    (''fitted'', JArr [JNum 9, JNum 11])])]))
          ''all'')
   \<and> mergeChartData (sanitizeForecastData
        (JObj [(''train'', JObj [(''dates'', JArr [JStr ''2021-01'', JNull, JStr ''2021-03'']),
                                 (''actual'', JArr [JNull, JNum 10, JNum 12]),
                                 (''fitted'', JArr [JNum 9, JNull])])]))
      = Some [\<lparr>fecha = JStr ''2021-01'', actual = JUndefined, fitted = JNum 9,
           validation_predicted = JUndefined, predicted = JUndefined,
           lower = JUndefined, upper = JUndefined, type = ''train''\<rparr>,
         \<lparr>fecha = JUndefined, actual = JNum 10, fitted = JUndefined,
           validation_predicted = JUndefined, predicted = JUndefined,
           lower = JUndefined, upper = JUndefined, type = ''train''\<rparr>,
         \<lparr>fecha = JStr ''2021-03'', actual = JNum 12, fitted = JUndefined,
           validation_predicted = JUndefined, predicted = JUndefined,
           lower = JUndefined, upper = JUndefined, type = ''train''\<rparr>]"
proof -
  let ?ex = "JObj [(''train'', JObj [(''dates'', JArr [JStr ''2021-01'', JStr ''2021-02'']),
                                    (''actual'', JArr [JNum 10, JNull]),
                                    (''fitted'', JArr [JNum 9, JNum 11])])]"
  let ?ex2 = "JObj [(''train'', JObj [(''dates'', JArr [JStr ''2021-01'', JNull, JStr ''2021-03'']),
                                 (''actual'', JArr [JNull, JNum 10, JNum 12]),
                                 (''fitted'', JArr [JNum 9, JNull])])]"
  note inst = sanitized_merge_null_free [of months2021 ?ex "''all''" _ "''2021-01''" "''2021-02''"]
  note inst2 = sanitized_merge_null_free [of _ ?ex2]
  have h: "\<forall>x y. months2021 (JStr ''2021-01'') = Some x \<longrightarrow> months2021 (JStr ''2021-02'') = Some y \<longrightarrow> x \<le> y"
    by (simp add: months2021_def)
  have h2: "truthy ?ex2"
    by simp
  have a: "prepareChartData months2021 (sanitizeForecastData ?ex) ''all'' = [\<lparr>fecha = JStr ''2021-01'', actual = JNum 10, fitted = JNum 9,
           validation_predicted = JUndefined, predicted = JUndefined,
           lower = JUndefined, upper = JUndefined, type = ''train''\<rparr>,
         \<lparr>fecha = JStr ''2021-02'', actual = JUndefined, fitted = JNum 11,
           validation_predicted = JUndefined, predicted = JUndefined,
           lower = JUndefined, upper = JUndefined, type = ''train''\<rparr>]"
    by (rule mp [OF conjunct2 [OF conjunct2 [OF conjunct2 [OF conjunct2 [OF inst]]]] h])
  have b: "list_all (\<lambda>r. \<not> hasNull r) (prepareChartData months2021 (sanitizeForecastData ?ex) ''all'')"
    unfolding list_all_iff by (rule conjunct1 [OF inst])
  have c: "mergeChartData (sanitizeForecastData ?ex2) = Some [\<lparr>fecha = JStr ''2021-01'', actual = JUndefined, fitted = JNum 9,
           validation_predicted = JUndefined, predicted = JUndefined,
           lower = JUndefined, upper = JUndefined, type = ''train''\<rparr>,
         \<lparr>fecha = JUndefined, actual = JNum 10, fitted = JUndefined,
           validation_predicted = JUndefined, predicted = JUndefined,
           lower = JUndefined, upper = JUndefined, type = ''train''\<rparr>,
         \<lparr>fecha = JStr ''2021-03'', actual = JNum 12, fitted = JUndefined,
           validation_predicted = JUndefined, predicted = JUndefined,
           lower = JUndefined, upper = JUndefined, type = ''train''\<rparr>]"
    unfolding mp [OF conjunct1 [OF conjunct2 [OF conjunct2 [OF inst2]]] h2]
    by (simp add: getProp_def entryAt_def nullToAbsent_def upt_rec)
  from a b c show ?thesis
    by (intro conjI)
qed

lemma coinciding_dates_example:
  "prepareChartData tv
     (sanitizeForecastData
        (JObj [(''test'', JObj [(''dates'', JArr [JStr d]), (''actual'', JArr [JNum 4]),
                                (''predicted'', JArr [JNum 5])]),
               (''forecast'', JObj [(''dates'', JArr [JStr d]), (''predicted'', JArr [JNum 7])])]))
     ''all''
   = [\<lparr>fecha = JStr d, actual = JNum 4, fitted = JUndefined,
        validation_predicted = JNum 5, predicted = JUndefined,
        lower = JUndefined, upper = JUndefined, type = ''test''\<rparr>,
      \<lparr>fecha = JStr d, actual = JUndefined, fitted = JUndefined,
        validation_predicted = JUndefined, predicted = JNum 7,
        lower = JUndefined, upper = JUndefined, type = ''future''\<rparr>]"
proof -
  have "mergeChartData
     (sanitizeForecastData
        (JObj [(''test'', JObj [(''dates'', JArr [JStr d]), (''actual'', JArr [JNum 4]),
                                (''predicted'', JArr [JNum 5])]),
               (''forecast'', JObj [(''dates'', JArr [JStr d]), (''predicted'', JArr [JNum 7])])]))
   = Some [\<lparr>fecha = JStr d, actual = JNum 4, fitted = JUndefined,
        validation_predicted = JNum 5, predicted = JUndefined,
        lower = JUndefined, upper = JUndefined, type = ''test''\<rparr>,
      \<lparr>fecha = JStr d, actual = JUndefined, fitted = JUndefined,
        validation_predicted = JUndefined, predicted = JNum 7,
        lower = JUndefined, upper = JUndefined, type = ''future''\<rparr>]"
    by (simp add: sanitizeForecastData_def mergeChartData_def trainRows_def testRows_def
          futureRows_def forEachPush_JArr upt_rec getProp_def)
  then show ?thesis
    by (auto simp: prepareChartData_def sanitizeForecastData_def filterByMode_def
          sortCompare_compareFecha split: option.splits)
qed

text \<open>
  C2.  In the merged table the rows zipped from the \<open>test\<close> sub-series are one per
  test date, each with \<open>test.predicted[i]\<close> under \<open>validation_predicted\<close> and
  \<open>predicted\<close> undefined; the rows zipped from the \<open>forecast\<close> sub-series are one
  per forecast date, each with \<open>forecast.predicted[i]\<close> under \<open>predicted\<close> and
  \<open>validation_predicted\<close> undefined.  The chart data in mode \<open>all\<close> hold every
  row of the merged table, each as often as the table does, so no row replaces
  another; a test date and a forecast date that coincide give two rows, with the
  two predictions in their two fields.
\<close>

theorem predictions_in_distinct_fields:
  assumes "truthy fd" and "mergeChartData fd = Some chartData"
  shows "(\<exists>tr te fu. chartData = tr @ te @ fu
      \<and> list_all (\<lambda>r. type r = ''train'') tr
      \<and> te = map (\<lambda>i. \<lparr>fecha = items (getProp (getProp fd ''test'') ''dates'') ! i,
                      actual = elemAt (getProp (getProp fd ''test'') ''actual'') i,
                      fitted = JUndefined,
                      validation_predicted = elemAt (getProp (getProp fd ''test'') ''predicted'') i,
                      predicted = JUndefined,
                      lower = elemAt (getProp (getProp fd ''test'') ''lower'') i,
                      upper = elemAt (getProp (getProp fd ''test'') ''upper'') i,
                      type = ''test''\<rparr>)
                [0..<length (items (getProp (getProp fd ''test'') ''dates''))]
      \<and> fu = map (\<lambda>i. \<lparr>fecha = items (getProp (getProp fd ''forecast'') ''dates'') ! i,
                      actual = JUndefined,
                      fitted = JUndefined,
                      validation_predicted = JUndefined,
                      predicted = elemAt (getProp (getProp fd ''forecast'') ''predicted'') i,
                      lower = elemAt (getProp (getProp fd ''forecast'') ''lower'') i,
                      upper = elemAt (getProp (getProp fd ''forecast'') ''upper'') i,
                      type = ''future''\<rparr>)
                [0..<length (items (getProp (getProp fd ''forecast'') ''dates''))])
    \<and> mset (prepareChartData tv fd ''all'') = mset chartData
    \<and> (\<forall>r\<in>set (prepareChartData tv fd m).
          (type r = ''test'' \<longrightarrow> predicted r = JUndefined)
          \<and> (type r = ''future'' \<longrightarrow> validation_predicted r = JUndefined))
    \<and> prepareChartData tv
         (sanitizeForecastData
            (JObj [(''test'', JObj [(''dates'', JArr [JStr d]), (''actual'', JArr [JNum 4]),
                                    (''predicted'', JArr [JNum 5])]),
                   (''forecast'', JObj [(''dates'', JArr [JStr d]), (''predicted'', JArr [JNum 7])])]))
         ''all''
       = [\<lparr>fecha = JStr d, actual = JNum 4, fitted = JUndefined,
            validation_predicted = JNum 5, predicted = JUndefined,
            lower = JUndefined, upper = JUndefined, type = ''test''\<rparr>,
          \<lparr>fecha = JStr d, actual = JUndefined, fitted = JUndefined,
            validation_predicted = JUndefined, predicted = JNum 7,
            lower = JUndefined, upper = JUndefined, type = ''future''\<rparr>]"
proof -
  from assms(2) obtain tr te fu where
    tr: "trainRows (getProp fd ''train'') = Some tr" and
    te: "testRows (getProp fd ''test'') = Some te" and
    fu: "futureRows (getProp fd ''forecast'') = Some fu" and
    c: "chartData = tr @ te @ fu"
    by (auto simp: mergeChartData_Some)
  have 1: "list_all (\<lambda>r. type r = ''train'') tr"
    using types_of_rows(1) [OF tr] by (simp add: list_all_iff)
  have out: "set (prepareChartData tv fd m) \<subseteq> set tr \<union> set te \<union> set fu"
    using assms c set_filterByMode [of m chartData] by (auto simp: prepareChartData_merged)
  have 2: "\<forall>r\<in>set (prepareChartData tv fd m).
          (type r = ''test'' \<longrightarrow> predicted r = JUndefined)
          \<and> (type r = ''future'' \<longrightarrow> validation_predicted r = JUndefined)"
  proof
    fix r assume "r \<in> set (prepareChartData tv fd m)"
    with out consider "r \<in> set tr" | "r \<in> set te" | "r \<in> set fu" by blast
    then show "(type r = ''test'' \<longrightarrow> predicted r = JUndefined)
          \<and> (type r = ''future'' \<longrightarrow> validation_predicted r = JUndefined)"
    proof cases
      case 1
      then show ?thesis using trainRows_Some [OF tr] by auto
    next
      case 2
      then show ?thesis using testRows_Some [OF te] by auto
    next
      case 3
      then show ?thesis using futureRows_Some [OF fu] by auto
    qed
  qed
  show ?thesis
    using c 1 testRows_Some [OF te] futureRows_Some [OF fu] 2
      mset_prepareChartData_all [OF assms] coinciding_dates_example
    by blast
qed


theorem predictions_in_distinct_fields_witness:
  "truthy (sanitizeForecastData
            (JObj [(''test'', JObj [(''dates'', JArr [JStr ''2021-03'']), (''actual'', JArr [JNum 4]),
                                    (''predicted'', JArr [JNum 5])]),
                   (''forecast'', JObj [(''dates'', JArr [JStr ''2021-03'']), (''predicted'', JArr [JNum 7])])]))
   \<and> mergeChartData
         (sanitizeForecastData
            (JObj [(''test'', JObj [(''dates'', JArr [JStr ''2021-03'']), (''actual'', JArr [JNum 4]),
                                    (''predicted'', JArr [JNum 5])]),
                   (''forecast'', JObj [(''dates'', JArr [JStr ''2021-03'']), (''predicted'', JArr [JNum 7])])]))
       = Some [\<lparr>fecha = JStr ''2021-03'', actual = JNum 4, fitted = JUndefined,
            validation_predicted = JNum 5, predicted = JUndefined,
            lower = JUndefined, upper = JUndefined, type = ''test''\<rparr>,
          \<lparr>fecha = JStr ''2021-03'', actual = JUndefined, fitted = JUndefined,
            validation_predicted = JUndefined, predicted = JNum 7,
            lower = JUndefined, upper = JUndefined, type = ''future''\<rparr>]
   \<and> mset (prepareChartData months2021
         (sanitizeForecastData
            (JObj [(''test'', JObj [(''dates'', JArr [JStr ''2021-03'']), (''actual'', JArr [JNum 4]),
                                    (''predicted'', JArr [JNum 5])]),
                   (''forecast'', JObj [(''dates'', JArr [JStr ''2021-03'']), (''predicted'', JArr [JNum 7])])]))
         ''all'')
       = mset [\<lparr>fecha = JStr ''2021-03'', actual = JNum 4, fitted = JUndefined,
            validation_predicted = JNum 5, predicted = JUndefined,
            lower = JUndefined, upper = JUndefined, type = ''test''\<rparr>,
          \<lparr>fecha = JStr ''2021-03'', actual = JUndefined, fitted = JUndefined,
            validation_predicted = JUndefined, predicted = JNum 7,
            lower = JUndefined, upper = JUndefined, type = ''future''\<rparr>]"
proof -
  let ?fd = "sanitizeForecastData
            (JObj [(''test'', JObj [(''dates'', JArr [JStr ''2021-03'']), (''actual'', JArr [JNum 4]),
                                    (''predicted'', JArr [JNum 5])]),
                   (''forecast'', JObj [(''dates'', JArr [JStr ''2021-03'']), (''predicted'', JArr [JNum 7])])])"
  have h1: "truthy ?fd"
    by (simp add: sanitizeForecastData_def)
  have h2: "mergeChartData ?fd
       = Some [\<lparr>fecha = JStr ''2021-03'', actual = JNum 4, fitted = JUndefined,
            validation_predicted = JNum 5, predicted = JUndefined,
            lower = JUndefined, upper = JUndefined, type = ''test''\<rparr>,
          \<lparr>fecha = JStr ''2021-03'', actual = JUndefined, fitted = JUndefined,
            validation_predicted = JUndefined, predicted = JNum 7,
            lower = JUndefined, upper = JUndefined, type = ''future''\<rparr>]"
    by (simp add: sanitizeForecastData_def mergeChartData_def trainRows_def testRows_def
          futureRows_def forEachPush_JArr upt_rec getProp_def)
  show ?thesis
    using h1 h2 predictions_in_distinct_fields [OF h1 h2, of months2021] by blast
qed

subsection \<open>Sorting by date\<close>

lemma months_example:
  assumes "tv (JStr ''2021-01'') = Some t1" and "tv (JStr ''2021-02'') = Some t2"
    and "tv (JStr ''2021-03'') = Some t3" and "t1 < t2" and "t2 < t3"
  shows "map fecha
      (prepareChartData tv
         (sanitizeForecastData
            (JObj [(''train'', JObj [(''dates'', JArr [JStr ''2021-03'', JStr ''2021-01'', JStr ''2021-02''])])]))
         ''all'')
     = [JStr ''2021-01'', JStr ''2021-02'', JStr ''2021-03'']"
proof -
  have "mergeChartData
         (sanitizeForecastData
            (JObj [(''train'', JObj [(''dates'', JArr [JStr ''2021-03'', JStr ''2021-01'', JStr ''2021-02''])])]))
     = Some [\<lparr>fecha = JStr ''2021-03'', actual = JUndefined, fitted = JUndefined,
            validation_predicted = JUndefined, predicted = JUndefined,
            lower = JUndefined, upper = JUndefined, type = ''train''\<rparr>,
          \<lparr>fecha = JStr ''2021-01'', actual = JUndefined, fitted = JUndefined,
            validation_predicted = JUndefined, predicted = JUndefined,
            lower = JUndefined, upper = JUndefined, type = ''train''\<rparr>,
          \<lparr>fecha = JStr ''2021-02'', actual = JUndefined, fitted = JUndefined,
            validation_predicted = JUndefined, predicted = JUndefined,
            lower = JUndefined, upper = JUndefined, type = ''train''\<rparr>]"
    by (simp add: sanitizeForecastData_def mergeChartData_def trainRows_def testRows_def
          futureRows_def forEachPush_JArr upt_rec getProp_def)
  then show ?thesis
    using assms
    by (simp add: prepareChartData_def sanitizeForecastData_def filterByMode_def
          sortCompare_compareFecha)
qed

text \<open>
  For a consistent comparator the result of a stable sort is fixed: when every
  date parses, any list that is a rearrangement of the rows, ascending by date,
  with the rows of each date in their original order, is the result.
\<close>

lemma stable_sort_unique:
  assumes valid: "\<forall>r\<in>set xs. tv (fecha r) \<noteq> None"
    and perm: "mset ys = mset xs"
    and sorted: "sorted (map (\<lambda>r. the (tv (fecha r))) ys)"
    and stable: "\<forall>k. filter (\<lambda>r. tv (fecha r) = Some k) ys = filter (\<lambda>r. tv (fecha r) = Some k) xs"
  shows "ys = sortBy (compareFecha tv) xs"
proof -
  let ?f = "\<lambda>r. the (tv (fecha r))"
  have sets: "set ys = set xs"
    using perm by (metis set_mset_mset)
  have key: "(?f k = ?f x) = (tv (fecha x) = Some (?f k))" if "x \<in> set xs" "k \<in> set xs" for x k
  proof -
    from that valid obtain a b where "tv (fecha x) = Some a" "tv (fecha k) = Some b"
      by (metis not_None_eq)
    then show ?thesis by auto
  qed
  have "sort_key ?f xs = ys"
  proof (rule properties_for_sort_key [OF perm _ sorted])
    fix k assume k: "k \<in> set ys"
    have "filter (\<lambda>x. ?f k = ?f x) ys = filter (\<lambda>r. tv (fecha r) = Some (?f k)) ys"
      using key k sets by (intro filter_cong refl) auto
    also have "\<dots> = filter (\<lambda>r. tv (fecha r) = Some (?f k)) xs"
      using stable by simp
    also have "\<dots> = filter (\<lambda>x. ?f k = ?f x) xs"
      using key k sets by (intro filter_cong refl) auto
    finally show "filter (\<lambda>x. ?f k = ?f x) ys = filter (\<lambda>x. ?f k = ?f x) xs" .
  qed
  then show ?thesis
    by (simp add: sortBy_sort_key [OF valid])
qed

lemma sortBy_none_parse:
  assumes "\<forall>r\<in>set xs. tv (fecha r) = None"
  shows "sortBy (compareFecha tv) xs = xs"
proof -
  have "filter (\<lambda>r. tv (fecha r) = None) (sortBy (compareFecha tv) xs)
      = filter (\<lambda>r. tv (fecha r) = None) xs"
    by (rule sortBy_keeps_invalid)
  moreover have "filter (\<lambda>r. tv (fecha r) = None) xs = xs"
    using assms by simp
  moreover have "filter (\<lambda>r. tv (fecha r) = None) (sortBy (compareFecha tv) xs)
      = sortBy (compareFecha tv) xs"
    using assms by simp
  ultimately show ?thesis by simp
qed


text \<open>
  C3, as the code has it.  The chart data are a rearrangement of the filtered rows
  of the merged table.  When every \<open>fecha\<close> parses, they are sorted ascending by
  the parsed date, rows of equal date in their original order, and this fixes the
  list: any stable sort returns it; the month strings 2021-03, 2021-01, 2021-02 of
  one sub-series come out as 2021-01, 2021-02, 2021-03.  A comparison with a row
  whose \<open>fecha\<close> does not parse gives NaN, which the sort reads as equal, and
  nothing is raised; when no \<open>fecha\<close> parses the rows stay as they are.  For
  rows of both kinds nothing is stated: the comparator is then inconsistent and
  the order is the engine's.
\<close>

theorem sorted_by_parsed_date:
  assumes "truthy fd" and "mergeChartData fd = Some chartData"
  shows "mset (prepareChartData tv fd m) = mset (filterByMode m chartData)
    \<and> ((\<forall>r\<in>set (filterByMode m chartData). tv (fecha r) \<noteq> None) \<longrightarrow>
          sorted (map (\<lambda>r. the (tv (fecha r))) (prepareChartData tv fd m))
          \<and> (\<forall>k. filter (\<lambda>r. tv (fecha r) = Some k) (prepareChartData tv fd m)
                 = filter (\<lambda>r. tv (fecha r) = Some k) (filterByMode m chartData))
          \<and> (\<forall>ys. mset ys = mset (filterByMode m chartData)
                 \<and> sorted (map (\<lambda>r. the (tv (fecha r))) ys)
                 \<and> (\<forall>k. filter (\<lambda>r. tv (fecha r) = Some k) ys
                        = filter (\<lambda>r. tv (fecha r) = Some k) (filterByMode m chartData))
                 \<longrightarrow> ys = prepareChartData tv fd m))
    \<and> (\<forall>a b. tv (fecha a) = None \<or> tv (fecha b) = None \<longrightarrow>
          compareFecha tv a b = None \<and> sortCompare (compareFecha tv) a b = 0)
    \<and> ((\<forall>r\<in>set (filterByMode m chartData). tv (fecha r) = None) \<longrightarrow>
          prepareChartData tv fd m = filterByMode m chartData)
    \<and> (tv (JStr ''2021-01'') = Some t1 \<and> tv (JStr ''2021-02'') = Some t2
          \<and> tv (JStr ''2021-03'') = Some t3 \<and> t1 < t2 \<and> t2 < t3 \<longrightarrow>
        map fecha
          (prepareChartData tv
             (sanitizeForecastData
                (JObj [(''train'', JObj [(''dates'', JArr [JStr ''2021-03'', JStr ''2021-01'', JStr ''2021-02''])])]))
             ''all'')
         = [JStr ''2021-01'', JStr ''2021-02'', JStr ''2021-03''])"
proof -
  let ?rows = "filterByMode m chartData"
  have out: "prepareChartData tv fd m = sortBy (compareFecha tv) ?rows"
    using assms by (rule prepareChartData_merged)
  have a: "mset (prepareChartData tv fd m) = mset ?rows"
    by (simp add: out)
  have b: "(\<forall>r\<in>set ?rows. tv (fecha r) \<noteq> None) \<longrightarrow>
          sorted (map (\<lambda>r. the (tv (fecha r))) (prepareChartData tv fd m))
          \<and> (\<forall>k. filter (\<lambda>r. tv (fecha r) = Some k) (prepareChartData tv fd m)
                 = filter (\<lambda>r. tv (fecha r) = Some k) ?rows)
          \<and> (\<forall>ys. mset ys = mset ?rows
                 \<and> sorted (map (\<lambda>r. the (tv (fecha r))) ys)
                 \<and> (\<forall>k. filter (\<lambda>r. tv (fecha r) = Some k) ys
                        = filter (\<lambda>r. tv (fecha r) = Some k) ?rows)
                 \<longrightarrow> ys = prepareChartData tv fd m)"
  proof (intro impI conjI allI)
    assume valid: "\<forall>r\<in>set ?rows. tv (fecha r) \<noteq> None"
    show "sorted (map (\<lambda>r. the (tv (fecha r))) (prepareChartData tv fd m))"
      unfolding out using valid by (rule sortBy_sorted_stable(1))
    show "filter (\<lambda>r. tv (fecha r) = Some k) (prepareChartData tv fd m)
                 = filter (\<lambda>r. tv (fecha r) = Some k) ?rows" for k
      unfolding out using valid by (rule sortBy_sorted_stable(2))
    show "ys = prepareChartData tv fd m"
      if "mset ys = mset ?rows
                 \<and> sorted (map (\<lambda>r. the (tv (fecha r))) ys)
                 \<and> (\<forall>k. filter (\<lambda>r. tv (fecha r) = Some k) ys
                        = filter (\<lambda>r. tv (fecha r) = Some k) ?rows)" for ys
      unfolding out
      using valid conjunct1 [OF that] conjunct1 [OF conjunct2 [OF that]]
        conjunct2 [OF conjunct2 [OF that]]
      by (rule stable_sort_unique)
  qed
  have c: "\<forall>a b. tv (fecha a) = None \<or> tv (fecha b) = None \<longrightarrow>
          compareFecha tv a b = None \<and> sortCompare (compareFecha tv) a b = 0"
    by (auto simp: sortCompare_def compareFecha_def split: option.splits)
  have d: "(\<forall>r\<in>set ?rows. tv (fecha r) = None) \<longrightarrow> prepareChartData tv fd m = ?rows"
    unfolding out using sortBy_none_parse by blast
  have e: "tv (JStr ''2021-01'') = Some t1 \<and> tv (JStr ''2021-02'') = Some t2
          \<and> tv (JStr ''2021-03'') = Some t3 \<and> t1 < t2 \<and> t2 < t3 \<longrightarrow>
        map fecha
          (prepareChartData tv
             (sanitizeForecastData
                (JObj [(''train'', JObj [(''dates'', JArr [JStr ''2021-03'', JStr ''2021-01'', JStr ''2021-02''])])]))
             ''all'')
         = [JStr ''2021-01'', JStr ''2021-02'', JStr ''2021-03'']"
    using months_example [of tv t1 t2 t3] by (intro impI) (elim conjE)
  from a b c d e show ?thesis
    by (intro conjI)
qed

theorem sorted_by_parsed_date_witness:
  "truthy (sanitizeForecastData
            (JObj [(''train'', JObj [(''dates'', JArr [JStr ''2021-03'', JStr ''2021-01'', JStr ''2021-02''])])]))
   \<and> map fecha
       (prepareChartData months2021
          (sanitizeForecastData
             (JObj [(''train'', JObj [(''dates'', JArr [JStr ''2021-03'', JStr ''2021-01'', JStr ''2021-02''])])]))
          ''all'')
      = [JStr ''2021-01'', JStr ''2021-02'', JStr ''2021-03'']
   \<and> sorted (map (\<lambda>r. the (months2021 (fecha r)))
       (prepareChartData months2021
          (sanitizeForecastData
             (JObj [(''train'', JObj [(''dates'', JArr [JStr ''2021-03'', JStr ''2021-01'', JStr ''2021-02''])])]))
          ''all''))"
proof -
  let ?fd = "sanitizeForecastData
      (JObj [(''train'', JObj [(''dates'', JArr [JStr ''2021-03'', JStr ''2021-01'', JStr ''2021-02''])])])"
  let ?chart = "[\<lparr>fecha = JStr ''2021-03'', actual = JUndefined, fitted = JUndefined,
            validation_predicted = JUndefined, predicted = JUndefined,
            lower = JUndefined, upper = JUndefined, type = ''train''\<rparr>,
          \<lparr>fecha = JStr ''2021-01'', actual = JUndefined, fitted = JUndefined,
            validation_predicted = JUndefined, predicted = JUndefined,
            lower = JUndefined, upper = JUndefined, type = ''train''\<rparr>,
          \<lparr>fecha = JStr ''2021-02'', actual = JUndefined, fitted = JUndefined,
            validation_predicted = JUndefined, predicted = JUndefined,
            lower = JUndefined, upper = JUndefined, type = ''train''\<rparr>]"
  have h1: "truthy ?fd"
    by (simp add: sanitizeForecastData_def)
  have h2: "mergeChartData ?fd = Some ?chart"
    by (simp add: sanitizeForecastData_def mergeChartData_def trainRows_def testRows_def
          futureRows_def forEachPush_JArr upt_rec getProp_def)
  have valid: "\<forall>r\<in>set (filterByMode ''all'' ?chart). months2021 (fecha r) \<noteq> None"
    by (simp add: filterByMode_def months2021_def)
  have tv: "months2021 (JStr ''2021-01'') = Some 1609459200000
      \<and> months2021 (JStr ''2021-02'') = Some 1612137600000
      \<and> months2021 (JStr ''2021-03'') = Some 1614556800000
      \<and> (1609459200000 :: int) < 1612137600000 \<and> (1612137600000 :: int) < 1614556800000"
    by (simp add: months2021_def)
  note inst = sorted_by_parsed_date [OF h1 h2, of months2021 "''all''" 1609459200000 1612137600000 1614556800000]
  have s: "sorted (map (\<lambda>r. the (months2021 (fecha r))) (prepareChartData months2021 ?fd ''all''))"
    by (rule conjunct1 [OF mp [OF conjunct1 [OF conjunct2 [OF inst]] valid]])
  have e: "map fecha (prepareChartData months2021 ?fd ''all'')
      = [JStr ''2021-01'', JStr ''2021-02'', JStr ''2021-03'']"
    by (rule mp [OF conjunct2 [OF conjunct2 [OF conjunct2 [OF conjunct2 [OF inst]]]] tv])
  from h1 e s show ?thesis
    by (intro conjI)
qed

text \<open>
  A date that does not parse between two that do: the comparator answers NaN for
  both neighbouring pairs, nothing moves, and the later month stays before the
  earlier one.
\<close>

theorem unparseable_date_counterexample:
  "map fecha
     (prepareChartData months2021
        (sanitizeForecastData
           (JObj [(''train'', JObj [(''dates'', JArr [JStr ''2021-03'', JNull, JStr ''2021-01''])])]))
        ''all'')
     = [JStr ''2021-03'', JUndefined, JStr ''2021-01'']
   \<and> months2021 (JStr ''2021-03'') = Some 1614556800000
   \<and> months2021 JUndefined = None
   \<and> months2021 (JStr ''2021-01'') = Some 1609459200000
   \<and> \<not> sorted (map (\<lambda>r. the (months2021 (fecha r)))
         (filter (\<lambda>r. months2021 (fecha r) \<noteq> None)
            (prepareChartData months2021
               (sanitizeForecastData
                  (JObj [(''train'', JObj [(''dates'', JArr [JStr ''2021-03'', JNull, JStr ''2021-01''])])]))
               ''all'')))"
proof -
  have "mergeChartData
        (sanitizeForecastData
           (JObj [(''train'', JObj [(''dates'', JArr [JStr ''2021-03'', JNull, JStr ''2021-01''])])]))
     = Some [\<lparr>fecha = JStr ''2021-03'', actual = JUndefined, fitted = JUndefined,
            validation_predicted = JUndefined, predicted = JUndefined,
            lower = JUndefined, upper = JUndefined, type = ''train''\<rparr>,
          \<lparr>fecha = JUndefined, actual = JUndefined, fitted = JUndefined,
            validation_predicted = JUndefined, predicted = JUndefined,
            lower = JUndefined, upper = JUndefined, type = ''train''\<rparr>,
          \<lparr>fecha = JStr ''2021-01'', actual = JUndefined, fitted = JUndefined,
            validation_predicted = JUndefined, predicted = JUndefined,
            lower = JUndefined, upper = JUndefined, type = ''train''\<rparr>]"
    by (simp add: sanitizeForecastData_def mergeChartData_def trainRows_def testRows_def
          futureRows_def forEachPush_JArr upt_rec getProp_def)
  then have "prepareChartData months2021
        (sanitizeForecastData
           (JObj [(''train'', JObj [(''dates'', JArr [JStr ''2021-03'', JNull, JStr ''2021-01''])])]))
        ''all''
     = [\<lparr>fecha = JStr ''2021-03'', actual = JUndefined, fitted = JUndefined,
            validation_predicted = JUndefined, predicted = JUndefined,
            lower = JUndefined, upper = JUndefined, type = ''train''\<rparr>,
          \<lparr>fecha = JUndefined, actual = JUndefined, fitted = JUndefined,
            validation_predicted = JUndefined, predicted = JUndefined,
            lower = JUndefined, upper = JUndefined, type = ''train''\<rparr>,
          \<lparr>fecha = JStr ''2021-01'', actual = JUndefined, fitted = JUndefined,
            validation_predicted = JUndefined, predicted = JUndefined,
            lower = JUndefined, upper = JUndefined, type = ''train''\<rparr>]"
    by (simp add: prepareChartData_def sanitizeForecastData_def filterByMode_def
          sortCompare_compareFecha months2021_def)
  then show ?thesis
    by (simp add: months2021_def)
qed

subsection \<open>Filtering by mode\<close>

text \<open>
  C4.  On every merged table the mode \<open>all\<close> keeps every row, in the order of the
  table; each of the modes \<open>train\<close>, \<open>test\<close> and \<open>future\<close> keeps exactly the
  rows whose \<open>type\<close> is the mode.  The chart data are the sort of the filter of
  the merged table: the filter runs after the merge and before the sort.
  Filtering twice by one mode is filtering once.
\<close>

theorem mode_filter_after_merge:
  "(mergeChartData fd = Some chartData \<longrightarrow> filterByMode ''all'' chartData = chartData)
   \<and> (m \<in> {''train'', ''test'', ''future''} \<longrightarrow>
        filterByMode m xs = filter (\<lambda>d. type d = m) xs)
   \<and> (truthy fd \<and> mergeChartData fd = Some chartData \<longrightarrow>
        prepareChartData tv fd m = sortBy (compareFecha tv) (filterByMode m chartData))
   \<and> filterByMode m (filterByMode m xs) = filterByMode m xs"
proof (intro conjI impI)
  show "filterByMode ''all'' chartData = chartData" if "mergeChartData fd = Some chartData"
    using that by (rule filterByMode_all_merged)
  show "filterByMode m xs = filter (\<lambda>d. type d = m) xs" if "m \<in> {''train'', ''test'', ''future''}"
    using that by (rule filterByMode_one)
  show "prepareChartData tv fd m = sortBy (compareFecha tv) (filterByMode m chartData)"
    if "truthy fd \<and> mergeChartData fd = Some chartData"
    using that by (simp add: prepareChartData_merged)
  show "filterByMode m (filterByMode m xs) = filterByMode m xs"
    by (rule filterByMode_idem)
qed

theorem mode_filter_after_merge_witness:
  "filterByMode ''all''
      [\<lparr>fecha = JStr ''2021-03'', actual = JNum 4, fitted = JUndefined,
            validation_predicted = JNum 5, predicted = JUndefined,
            lower = JUndefined, upper = JUndefined, type = ''test''\<rparr>,
          \<lparr>fecha = JStr ''2021-03'', actual = JUndefined, fitted = JUndefined,
            validation_predicted = JUndefined, predicted = JNum 7,
            lower = JUndefined, upper = JUndefined, type = ''future''\<rparr>]
    = [\<lparr>fecha = JStr ''2021-03'', actual = JNum 4, fitted = JUndefined,
            validation_predicted = JNum 5, predicted = JUndefined,
            lower = JUndefined, upper = JUndefined, type = ''test''\<rparr>,
          \<lparr>fecha = JStr ''2021-03'', actual = JUndefined, fitted = JUndefined,
            validation_predicted = JUndefined, predicted = JNum 7,
            lower = JUndefined, upper = JUndefined, type = ''future''\<rparr>]
   \<and> filterByMode ''test''
      [\<lparr>fecha = JStr ''2021-03'', actual = JNum 4, fitted = JUndefined,
            validation_predicted = JNum 5, predicted = JUndefined,
            lower = JUndefined, upper = JUndefined, type = ''test''\<rparr>,
          \<lparr>fecha = JStr ''2021-03'', actual = JUndefined, fitted = JUndefined,
            validation_predicted = JUndefined, predicted = JNum 7,
            lower = JUndefined, upper = JUndefined, type = ''future''\<rparr>]
    = [\<lparr>fecha = JStr ''2021-03'', actual = JNum 4, fitted = JUndefined,
            validation_predicted = JNum 5, predicted = JUndefined,
            lower = JUndefined, upper = JUndefined, type = ''test''\<rparr>]
   \<and> prepareChartData months2021
         (sanitizeForecastData
            (JObj [(''test'', JObj [(''dates'', JArr [JStr ''2021-03'']), (''actual'', JArr [JNum 4]),
                                    (''predicted'', JArr [JNum 5])]),
                   (''forecast'', JObj [(''dates'', JArr [JStr ''2021-03'']), (''predicted'', JArr [JNum 7])])]))
         ''test''
    = [\<lparr>fecha = JStr ''2021-03'', actual = JNum 4, fitted = JUndefined,
            validation_predicted = JNum 5, predicted = JUndefined,
            lower = JUndefined, upper = JUndefined, type = ''test''\<rparr>]"
proof -
  let ?fd = "sanitizeForecastData
            (JObj [(''test'', JObj [(''dates'', JArr [JStr ''2021-03'']), (''actual'', JArr [JNum 4]),
                                    (''predicted'', JArr [JNum 5])]),
                   (''forecast'', JObj [(''dates'', JArr [JStr ''2021-03'']), (''predicted'', JArr [JNum 7])])])"
  let ?chart = "[\<lparr>fecha = JStr ''2021-03'', actual = JNum 4, fitted = JUndefined,
            validation_predicted = JNum 5, predicted = JUndefined,
            lower = JUndefined, upper = JUndefined, type = ''test''\<rparr>,
          \<lparr>fecha = JStr ''2021-03'', actual = JUndefined, fitted = JUndefined,
            validation_predicted = JUndefined, predicted = JNum 7,
            lower = JUndefined, upper = JUndefined, type = ''future''\<rparr>]"
  have h1: "truthy ?fd"
    by (simp add: sanitizeForecastData_def)
  have h2: "mergeChartData ?fd = Some ?chart"
    by (simp add: sanitizeForecastData_def mergeChartData_def trainRows_def testRows_def
          futureRows_def forEachPush_JArr upt_rec getProp_def)
  have h3: "''test'' \<in> {''train'', ''test'', ''future''}"
    by simp
  note inst = mode_filter_after_merge [of ?fd ?chart "''test''" ?chart months2021]
  have a: "filterByMode ''all'' ?chart = ?chart"
    using inst h2 by (elim conjE) (erule mp)
  have t: "filterByMode ''test'' ?chart = filter (\<lambda>d. type d = ''test'') ?chart"
    using inst h3 by (elim conjE) (erule (1) mp)
  have p: "prepareChartData months2021 ?fd ''test''
          = sortBy (compareFecha months2021) (filterByMode ''test'' ?chart)"
    using inst h1 h2 by (elim conjE) (erule mp, rule conjI)
  have t': "filterByMode ''test'' ?chart =
      [\<lparr>fecha = JStr ''2021-03'', actual = JNum 4, fitted = JUndefined,
            validation_predicted = JNum 5, predicted = JUndefined,
            lower = JUndefined, upper = JUndefined, type = ''test''\<rparr>]"
    unfolding t by simp
  show ?thesis
    unfolding p t' using a by simp
qed

subsection \<open>Sub-series with arrays of different lengths\<close>

text \<open>
  C5, as the code has it.  For every response, each sub-series of the sanitized
  data gives one row per entry of its \<open>dates\<close>, whatever the lengths of its value
  arrays, and no block of the merge raises.  Row \<open>i\<close> reads every value array at
  \<open>i\<close>; a read past the end of an array is \<open>undefined\<close>, so a value array
  shorter than \<open>dates\<close> leaves the field undefined in the later rows, and the
  entries of a value array beyond the length of \<open>dates\<close> are not read.
\<close>

theorem one_row_per_date:
  assumes "truthy data"
  shows "\<exists>tr te fu.
       mergeChartData (sanitizeForecastData data) = Some (tr @ te @ fu)
     \<and> tr = map (\<lambda>i. \<lparr>fecha = items (getProp (getProp (sanitizeForecastData data) ''train'') ''dates'') ! i,
                      actual = elemAt (getProp (getProp (sanitizeForecastData data) ''train'') ''actual'') i,
                      fitted = elemAt (getProp (getProp (sanitizeForecastData data) ''train'') ''fitted'') i,
                      validation_predicted = JUndefined,
                      predicted = JUndefined,
                      lower = elemAt (getProp (getProp (sanitizeForecastData data) ''train'') ''lower'') i,
                      upper = elemAt (getProp (getProp (sanitizeForecastData data) ''train'') ''upper'') i,
                      type = ''train''\<rparr>)
                [0..<length (items (getProp (getProp (sanitizeForecastData data) ''train'') ''dates''))]
     \<and> te = map (\<lambda>i. \<lparr>fecha = items (getProp (getProp (sanitizeForecastData data) ''test'') ''dates'') ! i,
                      actual = elemAt (getProp (getProp (sanitizeForecastData data) ''test'') ''actual'') i,
                      fitted = JUndefined,
                      validation_predicted = elemAt (getProp (getProp (sanitizeForecastData data) ''test'') ''predicted'') i,
                      predicted = JUndefined,
                      lower = elemAt (getProp (getProp (sanitizeForecastData data) ''test'') ''lower'') i,
                      upper = elemAt (getProp (getProp (sanitizeForecastData data) ''test'') ''upper'') i,
                      type = ''test''\<rparr>)
                [0..<length (items (getProp (getProp (sanitizeForecastData data) ''test'') ''dates''))]
     \<and> fu = map (\<lambda>i. \<lparr>fecha = items (getProp (getProp (sanitizeForecastData data) ''forecast'') ''dates'') ! i,
                      actual = JUndefined,
                      fitted = JUndefined,
                      validation_predicted = JUndefined,
                      predicted = elemAt (getProp (getProp (sanitizeForecastData data) ''forecast'') ''predicted'') i,
                      lower = elemAt (getProp (getProp (sanitizeForecastData data) ''forecast'') ''lower'') i,
                      upper = elemAt (getProp (getProp (sanitizeForecastData data) ''forecast'') ''upper'') i,
                      type = ''future''\<rparr>)
                [0..<length (items (getProp (getProp (sanitizeForecastData data) ''forecast'') ''dates''))]
     \<and> length tr = length (items (getProp (getProp (sanitizeForecastData data) ''train'') ''dates''))
     \<and> length te = length (items (getProp (getProp (sanitizeForecastData data) ''test'') ''dates''))
     \<and> length fu = length (items (getProp (getProp (sanitizeForecastData data) ''forecast'') ''dates''))
     \<and> length (prepareChartData tv (sanitizeForecastData data) ''all'')
          = length tr + length te + length fu
     \<and> (\<forall>xs i. length xs \<le> i \<longrightarrow> elemAt (JArr xs) i = JUndefined)"
proof -
  let ?fd = "sanitizeForecastData data"
  from mergeChartData_sanitized [OF assms] obtain chartData where
    c: "mergeChartData ?fd = Some chartData" by blast
  then obtain tr te fu where
    tr: "trainRows (getProp ?fd ''train'') = Some tr" and
    te: "testRows (getProp ?fd ''test'') = Some te" and
    fu: "futureRows (getProp ?fd ''forecast'') = Some fu" and
    eq: "chartData = tr @ te @ fu"
    by (auto simp: mergeChartData_Some)
  note maps = trainRows_Some [OF tr] testRows_Some [OF te] futureRows_Some [OF fu]
  have lens: "length tr = length (items (getProp (getProp ?fd ''train'') ''dates''))"
    "length te = length (items (getProp (getProp ?fd ''test'') ''dates''))"
    "length fu = length (items (getProp (getProp ?fd ''forecast'') ''dates''))"
    by (subst maps, simp)+
  have "mset (prepareChartData tv ?fd ''all'') = mset chartData"
    using truthy_sanitizeForecastData [OF assms] c by (rule mset_prepareChartData_all)
  then have "length (prepareChartData tv ?fd ''all'') = length chartData"
    by (metis size_mset)
  then have total: "length (prepareChartData tv ?fd ''all'') = length tr + length te + length fu"
    by (simp add: eq)
  have past: "\<forall>xs i. length xs \<le> i \<longrightarrow> elemAt (JArr xs) i = JUndefined"
    by simp
  from c eq maps lens total past show ?thesis
    by blast
qed

lemma shortActual_chart:
  "prepareChartData months2021 (sanitizeForecastData shortActual) ''all''
   = [\<lparr>fecha = JStr ''2021-01'', actual = JNum 10, fitted = JNum 9,
        validation_predicted = JUndefined, predicted = JUndefined,
        lower = JNum 8, upper = JNum 12, type = ''train''\<rparr>,
      \<lparr>fecha = JStr ''2021-02'', actual = JUndefined, fitted = JNum 11,
        validation_predicted = JUndefined, predicted = JUndefined,
        lower = JNum 10, upper = JNum 13, type = ''train''\<rparr>]"
proof -
  have "mergeChartData (sanitizeForecastData shortActual)
   = Some [\<lparr>fecha = JStr ''2021-01'', actual = JNum 10, fitted = JNum 9,
        validation_predicted = JUndefined, predicted = JUndefined,
        lower = JNum 8, upper = JNum 12, type = ''train''\<rparr>,
      \<lparr>fecha = JStr ''2021-02'', actual = JUndefined, fitted = JNum 11,
        validation_predicted = JUndefined, predicted = JUndefined,
        lower = JNum 10, upper = JNum 13, type = ''train''\<rparr>]"
    by (simp add: shortActual_def sanitizeForecastData_def mergeChartData_def trainRows_def
          testRows_def futureRows_def forEachPush_JArr upt_rec getProp_def)
  then show ?thesis
    by (simp add: prepareChartData_def sanitizeForecastData_def shortActual_def filterByMode_def
          sortCompare_compareFecha months2021_def)
qed

theorem one_row_per_date_witness:
  "truthy shortActual
   \<and> length (prepareChartData months2021 (sanitizeForecastData shortActual) ''all'') = 2"
proof -
  have h: "truthy shortActual"
    by (simp add: shortActual_def)
  have d: "length (items (getProp (getProp (sanitizeForecastData shortActual) ''train'') ''dates'')) = 2"
    "length (items (getProp (getProp (sanitizeForecastData shortActual) ''test'') ''dates'')) = 0"
    "length (items (getProp (getProp (sanitizeForecastData shortActual) ''forecast'') ''dates'')) = 0"
    by (simp_all add: sanitized_train sanitized_test sanitized_forecast h)
       (simp_all add: shortActual_def getProp_def)
  from one_row_per_date [OF h, of months2021] obtain tr te fu :: "ChartPoint list" where
    "length (prepareChartData months2021 (sanitizeForecastData shortActual) ''all'')
       = length tr + length te + length fu"
    "length tr = length (items (getProp (getProp (sanitizeForecastData shortActual) ''train'') ''dates''))"
    "length te = length (items (getProp (getProp (sanitizeForecastData shortActual) ''test'') ''dates''))"
    "length fu = length (items (getProp (getProp (sanitizeForecastData shortActual) ''forecast'') ''dates''))"
    by blast
  with h d show ?thesis
    by simp
qed

text \<open>
  The sub-series of \<^const>\<open>shortActual\<close> has arrays of lengths 2, 1, 2, 2 and 2.
  The merge gives two rows, not one, and the second row has read \<open>actual\<close> at
  index 1, past its end.
\<close>

theorem shortest_array_counterexample:
  "length (prepareChartData months2021 (sanitizeForecastData shortActual) ''all'') = 2
   \<and> min (length (items (getProp (getProp shortActual ''train'') ''dates'')))
       (min (length (items (getProp (getProp shortActual ''train'') ''actual'')))
         (min (length (items (getProp (getProp shortActual ''train'') ''fitted'')))
           (min (length (items (getProp (getProp shortActual ''train'') ''lower'')))
                (length (items (getProp (getProp shortActual ''train'') ''upper'')))))) = 1
   \<and> actual (prepareChartData months2021 (sanitizeForecastData shortActual) ''all'' ! 1)
       = JUndefined
   \<and> length (items (getProp (getProp (sanitizeForecastData shortActual) ''train'') ''actual'')) = 1"
proof -
  have h: "truthy shortActual"
    by (simp add: shortActual_def)
  have "length (items (getProp (getProp (sanitizeForecastData shortActual) ''train'') ''actual'')) = 1"
    by (simp add: sanitized_train h) (simp add: shortActual_def getProp_def)
  then show ?thesis
    by (simp add: shortActual_chart) (simp add: shortActual_def getProp_def)
qed

section \<open>Properties of the API client\<close>

lemma missing_iff: "missing a \<longleftrightarrow> a = None \<or> a = Some []"
  by (cases a) auto

lemma getTimeSeries_missing:
  "missing a \<or> missing b \<Longrightarrow> getTimeSeries net a b = ([], Inl (Error requiredMessage))"
  by (cases a; cases b) auto

lemma getForecast_missing:
  "missing a \<or> missing b \<Longrightarrow> getForecast net a b = ([], Inl (Error requiredMessage))"
  by (cases a; cases b) auto

lemma getTimeSeries_fetches:
  "l \<noteq> [] \<Longrightarrow> e \<noteq> [] \<Longrightarrow>
   fst (getTimeSeries net (Some l) (Some e))
     = [API_BASE_URL @ ''/timeseries/'' @ encodeURIComponent l @ ''/'' @ encodeURIComponent e]"
  by (simp add: Let_def)

lemma getForecast_fetches:
  "l \<noteq> [] \<Longrightarrow> e \<noteq> [] \<Longrightarrow>
   fst (getForecast net (Some l) (Some e))
     = [API_BASE_URL @ ''/forecast/'' @ encodeURIComponent l @ ''/'' @ encodeURIComponent e]"
  by (simp add: Let_def)

text \<open>An encoded segment holds unreserved characters and escapes only.\<close>

lemma hexDigit_unreserved: "k < 16 \<Longrightarrow> unreserved (hexDigit k)"
proof -
  have "\<forall>k<16. unreserved (hexDigit k)"
    by (simp add: eval_nat_numeral All_less_Suc hexDigit_def unreserved_def)
  then show "k < 16 \<Longrightarrow> unreserved (hexDigit k)"
    by simp
qed

lemma set_escape:
  assumes "b < 256"
  shows "set (escape b) \<subseteq> insert CHR ''%'' {c. unreserved c}"
proof -
  have "b div 16 < 16" "b mod 16 < 16"
    using assms by arith+
  then show ?thesis
    by (simp add: escape_def hexDigit_unreserved)
qed

lemma set_encodeChar: "set (encodeChar c) \<subseteq> insert CHR ''%'' {c. unreserved c}"
proof -
  have n: "(of_char c :: nat) < 256"
    by (metis of_char_mod_256 mod_less_divisor zero_less_numeral)
  then have "192 + (of_char c :: nat) div 64 < 256" "128 + (of_char c :: nat) mod 64 < 256"
    by arith+
  then show ?thesis
    using set_escape n by (auto simp: encodeChar_def Let_def)
qed

lemma set_encodeURIComponent:
  "set (encodeURIComponent s) \<subseteq> insert CHR ''%'' {c. unreserved c}"
  using set_encodeChar by (auto simp: encodeURIComponent_def)

lemma no_slash_encoded: "CHR ''/'' \<notin> set (encodeURIComponent s)"
proof -
  have "\<not> unreserved CHR ''/''"
    by (simp add: unreserved_def)
  then show ?thesis
    using set_encodeURIComponent [of s] by auto
qed

text \<open>Unreserved characters pass unchanged.\<close>

lemma encode_unreserved: "list_all unreserved s \<Longrightarrow> encodeURIComponent s = s"
  by (induction s) (simp_all add: encodeURIComponent_def encodeChar_def)

text \<open>
  C6.  When either argument is missing or empty, \<open>getTimeSeries\<close> and
  \<open>getForecast\<close> throw the validation error and fetch nothing.  When both are
  non-empty, each call fetches exactly one URL: the base, the endpoint, and the two
  arguments percent-encoded, separated by a slash.  An encoded argument consists of
  unreserved characters and \<open>%\<close> escapes only.
\<close>

theorem validation_before_fetch:
  "(missing a \<or> missing b \<longrightarrow>
      getTimeSeries net a b = ([], Inl (Error requiredMessage))
      \<and> getForecast net a b = ([], Inl (Error requiredMessage)))
   \<and> (l \<noteq> [] \<and> e \<noteq> [] \<longrightarrow>
      fst (getTimeSeries net (Some l) (Some e))
        = [API_BASE_URL @ ''/timeseries/'' @ encodeURIComponent l @ ''/'' @ encodeURIComponent e]
      \<and> fst (getForecast net (Some l) (Some e))
        = [API_BASE_URL @ ''/forecast/'' @ encodeURIComponent l @ ''/'' @ encodeURIComponent e])
   \<and> set (encodeURIComponent s) \<subseteq> insert CHR ''%'' {c. unreserved c}"
proof (intro conjI impI)
  assume "missing a \<or> missing b"
  then show "getTimeSeries net a b = ([], Inl (Error requiredMessage))"
    and "getForecast net a b = ([], Inl (Error requiredMessage))"
    by (rule getTimeSeries_missing, rule getForecast_missing)
next
  assume "l \<noteq> [] \<and> e \<noteq> []"
  then have ne: "l \<noteq> []" "e \<noteq> []"
    by simp_all
  show "fst (getTimeSeries net (Some l) (Some e))
        = [API_BASE_URL @ ''/timeseries/'' @ encodeURIComponent l @ ''/'' @ encodeURIComponent e]"
    using ne by (rule getTimeSeries_fetches)
  show "fst (getForecast net (Some l) (Some e))
        = [API_BASE_URL @ ''/forecast/'' @ encodeURIComponent l @ ''/'' @ encodeURIComponent e]"
    using ne by (rule getForecast_fetches)
next
  show "set (encodeURIComponent s) \<subseteq> insert CHR ''%'' {c. unreserved c}"
    by (rule set_encodeURIComponent)
qed

theorem validation_before_fetch_witness:
  "getTimeSeries (respond \<lparr>ok = True, status = 200, statusText = ''OK'', json = Some (JObj [])\<rparr>)
      None (Some ''Zaragoza'')
     = ([], Inl (Error requiredMessage))
   \<and> getForecast (respond \<lparr>ok = True, status = 200, statusText = ''OK'', json = Some (JObj [])\<rparr>)
      None (Some ''Zaragoza'')
     = ([], Inl (Error requiredMessage))
   \<and> fst (getTimeSeries (respond \<lparr>ok = True, status = 200, statusText = ''OK'', json = Some (JObj [])\<rparr>)
        (Some (''L'' @ [CHR 0xED] @ ''nea 1'')) (Some ''Zaragoza''))
     = [''http://localhost:8000/api/timeseries/L%C3%ADnea%201/Zaragoza'']
   \<and> fst (getForecast (respond \<lparr>ok = True, status = 200, statusText = ''OK'', json = Some (JObj [])\<rparr>)
        (Some (''L'' @ [CHR 0xED] @ ''nea 1'')) (Some ''Zaragoza''))
     = [''http://localhost:8000/api/forecast/L%C3%ADnea%201/Zaragoza'']"
proof -
  let ?net = "respond \<lparr>ok = True, status = 200, statusText = ''OK'', json = Some (JObj [])\<rparr>"
  have h1: "missing None \<or> missing (Some ''Zaragoza'')"
    by simp
  have h2: "''L'' @ [CHR 0xED] @ ''nea 1'' \<noteq> [] \<and> ''Zaragoza'' \<noteq> []"
    by simp
  have enc: "encodeURIComponent (''L'' @ [CHR 0xED] @ ''nea 1'') = ''L%C3%ADnea%201''"
    "encodeURIComponent ''Zaragoza'' = ''Zaragoza''"
    by (simp_all add: encodeURIComponent_def encodeChar_def unreserved_def escape_def hexDigit_def)
  note inst1 = validation_before_fetch [of None "Some ''Zaragoza''" ?net]
  note inst2 = validation_before_fetch [of _ _ ?net "''L'' @ [CHR 0xED] @ ''nea 1''" "''Zaragoza''"]
  have a: "getTimeSeries ?net None (Some ''Zaragoza'') = ([], Inl (Error requiredMessage))
      \<and> getForecast ?net None (Some ''Zaragoza'') = ([], Inl (Error requiredMessage))"
    by (rule mp [OF conjunct1 [OF inst1] h1])
  have b: "fst (getTimeSeries ?net (Some (''L'' @ [CHR 0xED] @ ''nea 1'')) (Some ''Zaragoza''))
        = [API_BASE_URL @ ''/timeseries/'' @ encodeURIComponent (''L'' @ [CHR 0xED] @ ''nea 1'')
             @ ''/'' @ encodeURIComponent ''Zaragoza'']
      \<and> fst (getForecast ?net (Some (''L'' @ [CHR 0xED] @ ''nea 1'')) (Some ''Zaragoza''))
        = [API_BASE_URL @ ''/forecast/'' @ encodeURIComponent (''L'' @ [CHR 0xED] @ ''nea 1'')
             @ ''/'' @ encodeURIComponent ''Zaragoza'']"
    by (rule mp [OF conjunct1 [OF conjunct2 [OF inst2]] h2])
  from a b show ?thesis
    unfolding enc by (simp add: API_BASE_URL_def)
qed

text \<open>
  C7, as the code has it.  \<open>getStations\<close> fetches the stations URL once.  It
  fails with an error when the fetch rejects, when the HTTP status is not
  successful, when the body is not JSON, and when the parsed body is not an array.
  Every array is returned as it is, the empty array among them; the elements of
  the array are not looked at.
\<close>

theorem getStations_outcomes:
  "(net (API_BASE_URL @ ''/stations'') = Inl msg \<longrightarrow>
      (\<exists>err. getStations net = ([API_BASE_URL @ ''/stations''], Inl err)))
   \<and> (net (API_BASE_URL @ ''/stations'') = Inr r
        \<and> (\<not> ok r \<or> json r = None \<or> (\<exists>d. json r = Some d \<and> \<not> isArray d)) \<longrightarrow>
      (\<exists>err. getStations net = ([API_BASE_URL @ ''/stations''], Inl err)))
   \<and> (net (API_BASE_URL @ ''/stations'') = Inr r \<and> ok r \<and> json r = Some (JArr xs) \<longrightarrow>
      getStations net = ([API_BASE_URL @ ''/stations''], Inr (JArr xs)))"
proof (intro conjI impI)
  assume "net (API_BASE_URL @ ''/stations'') = Inl msg"
  then show "\<exists>err. getStations net = ([API_BASE_URL @ ''/stations''], Inl err)"
    by (simp add: getStations_def fetchJson_def)
next
  assume "net (API_BASE_URL @ ''/stations'') = Inr r
        \<and> (\<not> ok r \<or> json r = None \<or> (\<exists>d. json r = Some d \<and> \<not> isArray d))"
  then show "\<exists>err. getStations net = ([API_BASE_URL @ ''/stations''], Inl err)"
    by (cases "ok r"; cases "json r")
       (auto simp: getStations_def fetchJson_def handleResponse_def)
next
  assume "net (API_BASE_URL @ ''/stations'') = Inr r \<and> ok r \<and> json r = Some (JArr xs)"
  then show "getStations net = ([API_BASE_URL @ ''/stations''], Inr (JArr xs))"
    by (simp add: getStations_def fetchJson_def handleResponse_def)
qed

theorem getStations_outcomes_witness:
  "getStations (respond \<lparr>ok = True, status = 200, statusText = ''OK'', json = Some (JArr [])\<rparr>)
     = ([''http://localhost:8000/api/stations''], Inr (JArr []))
   \<and> isl (snd (getStations
        (respond \<lparr>ok = False, status = 500, statusText = ''Internal Server Error'', json = None\<rparr>)))
   \<and> isl (snd (getStations
        (respond \<lparr>ok = True, status = 200, statusText = ''OK'', json = Some (JObj [])\<rparr>)))"
proof -
  let ?r1 = "\<lparr>ok = True, status = 200, statusText = ''OK'', json = Some (JArr [])\<rparr>"
  let ?r2 = "\<lparr>ok = False, status = 500, statusText = ''Internal Server Error'', json = None\<rparr>"
  let ?r3 = "\<lparr>ok = True, status = 200, statusText = ''OK'', json = Some (JObj [])\<rparr>"
  have h1: "respond ?r1 (API_BASE_URL @ ''/stations'') = Inr ?r1 \<and> ok ?r1 \<and> json ?r1 = Some (JArr [])"
    by (simp add: respond_def)
  have h2: "respond ?r2 (API_BASE_URL @ ''/stations'') = Inr ?r2
      \<and> (\<not> ok ?r2 \<or> json ?r2 = None \<or> (\<exists>d. json ?r2 = Some d \<and> \<not> isArray d))"
    by (simp add: respond_def)
  have h3: "respond ?r3 (API_BASE_URL @ ''/stations'') = Inr ?r3
      \<and> (\<not> ok ?r3 \<or> json ?r3 = None \<or> (\<exists>d. json ?r3 = Some d \<and> \<not> isArray d))"
    by (simp add: respond_def)
  have a: "getStations (respond ?r1) = ([API_BASE_URL @ ''/stations''], Inr (JArr []))"
    by (rule mp [OF conjunct2 [OF conjunct2 [OF getStations_outcomes [of "respond ?r1" _ ?r1 "[]"]]] h1])
  have b: "\<exists>err. getStations (respond ?r2) = ([API_BASE_URL @ ''/stations''], Inl err)"
    by (rule mp [OF conjunct1 [OF conjunct2 [OF getStations_outcomes [of "respond ?r2" _ ?r2]]] h2])
  have c: "\<exists>err. getStations (respond ?r3) = ([API_BASE_URL @ ''/stations''], Inl err)"
    by (rule mp [OF conjunct1 [OF conjunct2 [OF getStations_outcomes [of "respond ?r3" _ ?r3]]] h3])
  from a b c show ?thesis
    by (auto simp: API_BASE_URL_def)
qed

text \<open>
  A body that is an array but not an array of stations: the call returns it
  instead of failing.
\<close>

theorem getStations_shape_counterexample:
  "getStations (respond \<lparr>ok = True, status = 200, statusText = ''OK'', json = Some (JArr [JNum 1])\<rparr>)
     = ([''http://localhost:8000/api/stations''], Inr (JArr [JNum 1]))
   \<and> \<not> isStationList (JArr [JNum 1])"
  by (simp add: getStations_def fetchJson_def handleResponse_def respond_def API_BASE_URL_def)

section \<open>Properties of the action button\<close>

lemma handleForecastClick_mode: "mode (snd (handleForecastClick net a b st)) = mode st"
  by (simp add: handleForecastClick_def Let_def split: prod.splits sum.splits error.splits)

text \<open>
  C10.  A click while forecast data are loaded fetches nothing and leaves the
  state as it was except for \<open>forecastData\<close>, which becomes \<open>null\<close>: mode,
  error message and loading flag are unchanged.  No click changes the mode, so a
  click that hides the forecast followed by a click that generates one leaves the
  mode that was selected before.
\<close>

theorem hide_resets_only_forecastData:
  "(truthy (forecastData st) \<longrightarrow>
      handleForecastClick net a b st = ([], st\<lparr>forecastData := JNull\<rparr>))
   \<and> mode (snd (handleForecastClick net a b st)) = mode st
   \<and> mode (snd (handleForecastClick net a b (snd (handleForecastClick net a b st)))) = mode st"
  by (simp add: handleForecastClick_mode) (simp add: handleForecastClick_def)

theorem hide_resets_only_forecastData_witness:
  "handleForecastClick
      (respond \<lparr>ok = True, status = 200, statusText = ''OK'', json = Some (JObj [])\<rparr>)
      (Some ''1'') (Some ''Zaragoza'')
      \<lparr>forecastData = JObj [(''train'', JUndefined)], loading = False,
        error = Some [Lit ''Error: x''], mode = ''future''\<rparr>
   = ([], \<lparr>forecastData = JNull, loading = False,
        error = Some [Lit ''Error: x''], mode = ''future''\<rparr>)"
proof -
  have h: "truthy (forecastData \<lparr>forecastData = JObj [(''train'', JUndefined)], loading = False,
        error = Some [Lit ''Error: x''], mode = ''future''\<rparr>)"
    by simp
  show ?thesis
    using h hide_resets_only_forecastData [of
        "\<lparr>forecastData = JObj [(''train'', JUndefined)], loading = False,
          error = Some [Lit ''Error: x''], mode = ''future''\<rparr>"
        "respond \<lparr>ok = True, status = 200, statusText = ''OK'', json = Some (JObj [])\<rparr>"
        "Some ''1''" "Some ''Zaragoza''"]
    by simp
qed

section \<open>Properties of the station selector\<close>

lemma set_addAll: "set (addAll seen xs) = set seen \<union> set xs"
  by (induction xs arbitrary: seen) auto

lemma distinct_addAll: "distinct seen \<Longrightarrow> distinct (addAll seen xs)"
  by (induction xs arbitrary: seen) auto

lemma set_newSet [simp]: "set (newSet xs) = set xs"
  by (simp add: newSet_def set_addAll)

lemma distinct_newSet [simp]: "distinct (newSet xs)"
  by (simp add: newSet_def distinct_addAll)

lemma sortCompare_defaultCompare: "sortCompare defaultCompare x y \<le> 0 \<longleftrightarrow> x \<le> y"
  by (auto simp: sortCompare_def defaultCompare_def)

lemma sorted_sortBy_defaultCompare: "sorted (sortBy defaultCompare xs)"
proof -
  have "sorted_wrt (\<lambda>a b. sortCompare defaultCompare a b \<le> 0) (sortBy defaultCompare xs)"
    by (rule sorted_wrt_sortBy) (auto simp: sortCompare_def defaultCompare_def split: if_splits)
  then show ?thesis
    by (simp add: sortCompare_defaultCompare)
qed

lemma distinct_sortBy: "distinct (sortBy c xs) \<longleftrightarrow> distinct xs"
  by (rule mset_eq_imp_distinct_iff) simp

lemma lines_sorted_distinct:
  "sorted (lines stations) \<and> distinct (lines stations) \<and> set (lines stations) = linea ` set stations"
  by (auto simp: lines_def sorted_sortBy_defaultCompare distinct_sortBy)

lemma sortCompare_Some [simp]: "sortCompare (\<lambda>a b. Some (f a b)) x y = f x y"
  by (simp add: sortCompare_def)

lemma stationsForLine_sorted:
  assumes "selectedLine \<noteq> []"
    and anti: "\<forall>x y. 0 < localeCompare x y \<longrightarrow> localeCompare y x \<le> 0"
    and trans: "\<forall>x y z. localeCompare x y \<le> 0 \<and> localeCompare y z \<le> 0 \<longrightarrow> localeCompare x z \<le> 0"
  shows "sorted_wrt (\<lambda>a b. localeCompare (estacion a) (estacion b) \<le> 0)
          (stationsForLine localeCompare selectedLine (stations :: Station list))"
proof -
  let ?c = "\<lambda>a b. Some (localeCompare (estacion a) (estacion b))"
  have "sorted_wrt (\<lambda>a b. sortCompare ?c a b \<le> 0)
      (sortBy ?c (filter (\<lambda>s. linea s = selectedLine) stations))"
  proof (rule sorted_wrt_sortBy)
    show "sortCompare ?c b a \<le> 0" if "0 < sortCompare ?c a b" for a b :: Station
    proof -
      from that have "0 < localeCompare (estacion a) (estacion b)"
        by simp
      then have "localeCompare (estacion b) (estacion a) \<le> 0"
        by (rule anti [rule_format])
      then show ?thesis by simp
    qed
    show "sortCompare ?c a d \<le> 0" if "sortCompare ?c a b \<le> 0" "sortCompare ?c b d \<le> 0" for a b d :: Station
    proof -
      from that have "localeCompare (estacion a) (estacion b) \<le> 0 \<and> localeCompare (estacion b) (estacion d) \<le> 0"
        by simp
      then have "localeCompare (estacion a) (estacion d) \<le> 0"
        by (rule trans [rule_format])
      then show ?thesis by simp
    qed
  qed
  then show ?thesis
    using assms(1) by (simp add: stationsForLine_def)
qed

lemma stationsForLine_stable:
  assumes "selectedLine \<noteq> []"
    and trans: "\<forall>x y z. localeCompare x y \<le> 0 \<and> localeCompare y z \<le> 0 \<longrightarrow> localeCompare x z \<le> 0"
  shows "filter (\<lambda>s. localeCompare k (estacion s) \<le> 0 \<and> localeCompare (estacion s) k \<le> 0)
            (stationsForLine localeCompare selectedLine stations)
         = filter (\<lambda>s. localeCompare k (estacion s) \<le> 0 \<and> localeCompare (estacion s) k \<le> 0)
            (filter (\<lambda>s. linea s = selectedLine) (stations :: Station list))"
proof -
  let ?c = "\<lambda>a b. Some (localeCompare (estacion a) (estacion b))"
  let ?P = "\<lambda>s. localeCompare k (estacion s) \<le> 0 \<and> localeCompare (estacion s) k \<le> 0"
  have "filter ?P (sortBy ?c (filter (\<lambda>s. linea s = selectedLine) stations))
      = filter ?P (filter (\<lambda>s. linea s = selectedLine) stations)"
  proof (rule filter_sortBy)
    show "sortCompare ?c x y \<le> 0" if "?P x" "?P y" for x y :: Station
    proof -
      from that have "localeCompare (estacion x) k \<le> 0 \<and> localeCompare k (estacion y) \<le> 0"
        by simp
      then have "localeCompare (estacion x) (estacion y) \<le> 0"
        by (rule trans [rule_format])
      then show ?thesis by simp
    qed
  qed
  then show ?thesis
    using assms(1) by (simp add: stationsForLine_def)
qed

lemma accentCollation_le:
  "accentCollation x y \<le> 0 \<longleftrightarrow>
     map baseLetter x < map baseLetter y \<or> (map baseLetter x = map baseLetter y \<and> x \<le> y)"
  by (auto simp: accentCollation_def)

lemma accentCollation_consistent:
  "\<forall>x y. 0 < accentCollation x y \<longrightarrow> accentCollation y x \<le> 0"
  "\<forall>x y z. accentCollation x y \<le> 0 \<and> accentCollation y z \<le> 0 \<longrightarrow> accentCollation x z \<le> 0"
proof -
  show "\<forall>x y. 0 < accentCollation x y \<longrightarrow> accentCollation y x \<le> 0"
    by (auto simp: accentCollation_def split: if_splits)
  show "\<forall>x y z. accentCollation x y \<le> 0 \<and> accentCollation y z \<le> 0 \<longrightarrow> accentCollation x z \<le> 0"
    unfolding accentCollation_le by (metis order_less_trans order_trans)
qed

lemma tlahuac:
  "stationsForLine accentCollation ''12''
     [\<lparr>linea = ''12'', estacion = ''Tlaltenco''\<rparr>,
      \<lparr>linea = ''12'', estacion = ''Tl'' @ [CHR 0xE1] @ ''huac''\<rparr>]
   = [\<lparr>linea = ''12'', estacion = ''Tl'' @ [CHR 0xE1] @ ''huac''\<rparr>,
      \<lparr>linea = ''12'', estacion = ''Tlaltenco''\<rparr>]"
  by (simp add: stationsForLine_def accentCollation_def baseLetter_def)

text \<open>
  C8, as the code has it.  The line list is the set of the \<open>linea\<close> values of
  the stations, without duplicates, ascending in the order of code units.  For a
  selected line, the candidate stations are the stations whose \<open>linea\<close> equals
  it, each as often as the station list has it, ascending by \<open>estacion\<close> in the
  order of the host's comparison \<open>localeCompare\<close> (a consistent comparison),
  stations that compare equal in their original order.  That order is the
  collation's and not the order of the code units of the names.
\<close>

theorem selector_lists_sorted:
  "sorted (lines stations) \<and> distinct (lines stations)
     \<and> set (lines stations) = linea ` set stations
   \<and> (selectedLine \<noteq> [] \<longrightarrow>
        mset (stationsForLine localeCompare selectedLine stations)
          = mset (filter (\<lambda>s. linea s = selectedLine) stations))
   \<and> (selectedLine \<noteq> []
        \<and> (\<forall>x y. 0 < localeCompare x y \<longrightarrow> localeCompare y x \<le> 0)
        \<and> (\<forall>x y z. localeCompare x y \<le> 0 \<and> localeCompare y z \<le> 0 \<longrightarrow> localeCompare x z \<le> 0)
        \<longrightarrow>
        sorted_wrt (\<lambda>a b. localeCompare (estacion a) (estacion b) \<le> 0)
          (stationsForLine localeCompare selectedLine stations)
        \<and> (\<forall>k. filter (\<lambda>s. localeCompare k (estacion s) \<le> 0 \<and> localeCompare (estacion s) k \<le> 0)
                  (stationsForLine localeCompare selectedLine stations)
               = filter (\<lambda>s. localeCompare k (estacion s) \<le> 0 \<and> localeCompare (estacion s) k \<le> 0)
                  (filter (\<lambda>s. linea s = selectedLine) stations)))"
proof (intro conjI impI allI)
  show "sorted (lines stations)" "distinct (lines stations)"
    "set (lines stations) = linea ` set stations"
    using lines_sorted_distinct [of stations] by simp_all
next
  assume "selectedLine \<noteq> []"
  then show "mset (stationsForLine localeCompare selectedLine stations)
          = mset (filter (\<lambda>s. linea s = selectedLine) stations)"
    by (simp add: stationsForLine_def)
next
  assume h: "selectedLine \<noteq> []
        \<and> (\<forall>x y. 0 < localeCompare x y \<longrightarrow> localeCompare y x \<le> 0)
        \<and> (\<forall>x y z. localeCompare x y \<le> 0 \<and> localeCompare y z \<le> 0 \<longrightarrow> localeCompare x z \<le> 0)"
  then show "sorted_wrt (\<lambda>a b. localeCompare (estacion a) (estacion b) \<le> 0)
          (stationsForLine localeCompare selectedLine stations)"
    using stationsForLine_sorted [of selectedLine localeCompare stations] by (elim conjE)
  fix k
  from h show "filter (\<lambda>s. localeCompare k (estacion s) \<le> 0 \<and> localeCompare (estacion s) k \<le> 0)
                  (stationsForLine localeCompare selectedLine stations)
               = filter (\<lambda>s. localeCompare k (estacion s) \<le> 0 \<and> localeCompare (estacion s) k \<le> 0)
                  (filter (\<lambda>s. linea s = selectedLine) stations)"
    using stationsForLine_stable [of selectedLine localeCompare k stations] by (elim conjE)
qed

theorem selector_lists_sorted_witness:
  "sorted (lines [\<lparr>linea = ''1'', estacion = ''Zaragoza''\<rparr>,
      \<lparr>linea = ''12'', estacion = ''Tlaltenco''\<rparr>,
      \<lparr>linea = ''12'', estacion = ''Tl'' @ [CHR 0xE1] @ ''huac''\<rparr>,
      \<lparr>linea = ''1'', estacion = ''Balderas''\<rparr>])
   \<and> set (lines [\<lparr>linea = ''1'', estacion = ''Zaragoza''\<rparr>,
      \<lparr>linea = ''12'', estacion = ''Tlaltenco''\<rparr>,
      \<lparr>linea = ''12'', estacion = ''Tl'' @ [CHR 0xE1] @ ''huac''\<rparr>,
      \<lparr>linea = ''1'', estacion = ''Balderas''\<rparr>]) = {''1'', ''12''}
   \<and> mset (stationsForLine accentCollation ''12'' [\<lparr>linea = ''1'', estacion = ''Zaragoza''\<rparr>,
      \<lparr>linea = ''12'', estacion = ''Tlaltenco''\<rparr>,
      \<lparr>linea = ''12'', estacion = ''Tl'' @ [CHR 0xE1] @ ''huac''\<rparr>,
      \<lparr>linea = ''1'', estacion = ''Balderas''\<rparr>])
       = {#\<lparr>linea = ''12'', estacion = ''Tlaltenco''\<rparr>,
           \<lparr>linea = ''12'', estacion = ''Tl'' @ [CHR 0xE1] @ ''huac''\<rparr>#}
   \<and> sorted_wrt (\<lambda>a b. accentCollation (estacion a) (estacion b) \<le> 0)
         (stationsForLine accentCollation ''12'' [\<lparr>linea = ''1'', estacion = ''Zaragoza''\<rparr>,
      \<lparr>linea = ''12'', estacion = ''Tlaltenco''\<rparr>,
      \<lparr>linea = ''12'', estacion = ''Tl'' @ [CHR 0xE1] @ ''huac''\<rparr>,
      \<lparr>linea = ''1'', estacion = ''Balderas''\<rparr>])"
proof -
  let ?st = "[\<lparr>linea = ''1'', estacion = ''Zaragoza''\<rparr>,
      \<lparr>linea = ''12'', estacion = ''Tlaltenco''\<rparr>,
      \<lparr>linea = ''12'', estacion = ''Tl'' @ [CHR 0xE1] @ ''huac''\<rparr>,
      \<lparr>linea = ''1'', estacion = ''Balderas''\<rparr>]"
  note inst = selector_lists_sorted [of ?st "''12''" accentCollation]
  have h: "''12'' \<noteq> ([] :: string)"
    by simp
  have hc: "''12'' \<noteq> ([] :: string)
        \<and> (\<forall>x y. 0 < accentCollation x y \<longrightarrow> accentCollation y x \<le> 0)
        \<and> (\<forall>x y z. accentCollation x y \<le> 0 \<and> accentCollation y z \<le> 0
              \<longrightarrow> accentCollation x z \<le> 0)"
    by (rule conjI [OF h conjI [OF accentCollation_consistent]])
  have a: "sorted (lines ?st)"
    by (rule conjunct1 [OF inst])
  have b: "set (lines ?st) = linea ` set ?st"
    by (rule conjunct1 [OF conjunct2 [OF conjunct2 [OF inst]]])
  have c: "mset (stationsForLine accentCollation ''12'' ?st)
      = mset (filter (\<lambda>s. linea s = ''12'') ?st)"
    by (rule mp [OF conjunct1 [OF conjunct2 [OF conjunct2 [OF conjunct2 [OF inst]]]] h])
  have d: "sorted_wrt (\<lambda>a b. accentCollation (estacion a) (estacion b) \<le> 0)
         (stationsForLine accentCollation ''12'' ?st)"
    by (rule conjunct1 [OF mp [OF conjunct2 [OF conjunct2 [OF conjunct2 [OF conjunct2 [OF inst]]]] hc]])
  have b': "set (lines ?st) = {''1'', ''12''}"
    unfolding b by auto
  have c': "mset (stationsForLine accentCollation ''12'' ?st)
      = {#\<lparr>linea = ''12'', estacion = ''Tlaltenco''\<rparr>,
           \<lparr>linea = ''12'', estacion = ''Tl'' @ [CHR 0xE1] @ ''huac''\<rparr>#}"
    unfolding c by simp
  from a b' c' d show ?thesis
    by (intro conjI)
qed

text \<open>
  Two stations of line 12 under \<^const>\<open>accentCollation\<close>, which is consistent:
  the name with the accented letter comes first, against the order of the code
  units.
\<close>

theorem collation_order_counterexample:
  "stationsForLine accentCollation ''12''
     [\<lparr>linea = ''12'', estacion = ''Tlaltenco''\<rparr>,
      \<lparr>linea = ''12'', estacion = ''Tl'' @ [CHR 0xE1] @ ''huac''\<rparr>]
   = [\<lparr>linea = ''12'', estacion = ''Tl'' @ [CHR 0xE1] @ ''huac''\<rparr>,
      \<lparr>linea = ''12'', estacion = ''Tlaltenco''\<rparr>]
   \<and> \<not> sorted (map estacion
        (stationsForLine accentCollation ''12''
           [\<lparr>linea = ''12'', estacion = ''Tlaltenco''\<rparr>,
            \<lparr>linea = ''12'', estacion = ''Tl'' @ [CHR 0xE1] @ ''huac''\<rparr>]))
   \<and> ''Tlaltenco'' < ''Tl'' @ [CHR 0xE1] @ ''huac''"
  unfolding tlahuac by simp

section \<open>Properties of the statistics panel\<close>

lemma orElse_primary:
  "afluencia item \<noteq> Some 0 \<Longrightarrow> orElse (afluencia item) (mean item) = afluenciaValue item"
  by (auto simp: orElse_def afluenciaValue_def)

lemma orElse_max:
  "afluencia item \<noteq> Some 0 \<Longrightarrow> max' item \<noteq> Some 0 \<Longrightarrow>
   orElse (orElse (max' item) (afluencia item)) (mean item)
     = (if max' item \<noteq> None then max' item else afluenciaValue item)"
  by (auto simp: orElse_def afluenciaValue_def)

lemma orElse_min:
  "afluencia item \<noteq> Some 0 \<Longrightarrow> min' item \<noteq> Some 0 \<Longrightarrow>
   orElse (orElse (min' item) (afluencia item)) (mean item)
     = (if min' item \<noteq> None then min' item else afluenciaValue item)"
  by (auto simp: orElse_def afluenciaValue_def)

lemma valid_afluenciaValue:
  "item \<in> set (validData data) \<Longrightarrow> afluenciaValue item = Some (primaryValue item)"
  by (auto simp: validData_def afluenciaValue_def primaryValue_def)

lemma fold_add_Num:
  "\<forall>x\<in>set xs. f x = Some (g x) \<Longrightarrow>
   fold (\<lambda>item sum. add sum (toNumber (f item))) xs (Num a) = Num (a + sum_list (map g xs))"
  by (induction xs arbitrary: a) (auto simp: add.assoc)

lemma mathMax_Cons: "mathMax (v # vs) = max2 (toNumber v) (mathMax vs)"
  by (simp add: mathMax_def)

lemma mathMin_Cons: "mathMin (v # vs) = min2 (toNumber v) (mathMin vs)"
  by (simp add: mathMin_def)

lemma mathMax_Num:
  "xs \<noteq> [] \<Longrightarrow> mathMax (map (\<lambda>x. Some (g x)) xs) = Num (Max (set (map g xs)))"
proof (induction xs)
  case Nil
  then show ?case by simp
next
  case (Cons x xs)
  show ?case
  proof (cases "xs = []")
    case True
    then show ?thesis by (simp add: mathMax_def)
  next
    case False
    with Cons show ?thesis by (simp add: mathMax_Cons)
  qed
qed

lemma mathMin_Num:
  "xs \<noteq> [] \<Longrightarrow> mathMin (map (\<lambda>x. Some (g x)) xs) = Num (Min (set (map g xs)))"
proof (induction xs)
  case Nil
  then show ?case by simp
next
  case (Cons x xs)
  show ?case
  proof (cases "xs = []")
    case True
    then show ?thesis by (simp add: mathMin_def)
  next
    case False
    with Cons show ?thesis by (simp add: mathMin_Cons)
  qed
qed

lemma statistics_guard:
  "statistics [] = None"
  "min' first = None \<or> max' first = None \<Longrightarrow> statistics (first # rest) = None"
  by auto

lemma statistics_nonzero:
  assumes guard: "min' first \<noteq> None" "max' first \<noteq> None"
    and ne: "validData (first # rest) \<noteq> []"
    and nz: "\<forall>item\<in>set (validData (first # rest)).
               afluencia item \<noteq> Some 0 \<and> min' item \<noteq> Some 0 \<and> max' item \<noteq> Some 0"
  shows "statistics (first # rest) =
     Some \<lparr>promedio = Num (sum_list (map primaryValue (validData (first # rest)))
                           / of_nat (length (validData (first # rest)))),
           maximo = Num (Max (set (map maxOrPrimary (validData (first # rest))))),
           minimo = Num (Min (set (map minOrPrimary (validData (first # rest)))))\<rparr>"
proof -
  let ?valid = "validData (first # rest)"
  have p: "orElse (afluencia item) (mean item) = Some (primaryValue item)"
    if "item \<in> set ?valid" for item
    using that nz by (simp add: orElse_primary valid_afluenciaValue)
  have mx: "orElse (orElse (max' item) (afluencia item)) (mean item) = Some (maxOrPrimary item)"
    if "item \<in> set ?valid" for item
    using that nz valid_afluenciaValue [OF that]
    by (auto simp: orElse_max maxOrPrimary_def)
  have mn: "orElse (orElse (min' item) (afluencia item)) (mean item) = Some (minOrPrimary item)"
    if "item \<in> set ?valid" for item
    using that nz valid_afluenciaValue [OF that]
    by (auto simp: orElse_min minOrPrimary_def)
  have sum: "fold (\<lambda>item sum. add sum (toNumber (orElse (afluencia item) (mean item)))) ?valid (Num 0)
      = Num (sum_list (map primaryValue ?valid))"
    using fold_add_Num [of ?valid "\<lambda>item. orElse (afluencia item) (mean item)" primaryValue 0] p
    by simp
  have len: "length ?valid \<noteq> 0"
    using ne by simp
  have eqmax: "map (\<lambda>item. orElse (orElse (max' item) (afluencia item)) (mean item)) ?valid
      = map (\<lambda>item. Some (maxOrPrimary item)) ?valid"
    by (rule map_cong [OF refl]) (rule mx)
  have max: "mathMax (map (\<lambda>item. orElse (orElse (max' item) (afluencia item)) (mean item)) ?valid)
      = Num (Max (set (map maxOrPrimary ?valid)))"
    unfolding eqmax using ne by (rule mathMax_Num)
  have eqmin: "map (\<lambda>item. orElse (orElse (min' item) (afluencia item)) (mean item)) ?valid
      = map (\<lambda>item. Some (minOrPrimary item)) ?valid"
    by (rule map_cong [OF refl]) (rule mn)
  have min: "mathMin (map (\<lambda>item. orElse (orElse (min' item) (afluencia item)) (mean item)) ?valid)
      = Num (Min (set (map minOrPrimary ?valid)))"
    unfolding eqmin using ne by (rule mathMin_Num)
  show ?thesis
    using guard by (simp only: statistics.simps Let_def sum max min divideBy.simps len if_True simp_thms)
qed


text \<open>
  C9, as the code has it.  The panel is rendered for a non-empty series whose
  first point carries both \<open>min\<close> and \<open>max\<close>, and for no other series.  When it
  is rendered, there is a valid point, and no valid point has an \<open>afluencia\<close>,
  \<open>min\<close> or \<open>max\<close> of zero, its three figures are the arithmetic mean of the
  primary values of the valid points, the greatest of their \<open>max\<close> values and the
  least of their \<open>min\<close> values, a point without \<open>max\<close> or \<open>min\<close> counting with
  its primary value.
\<close>

theorem statistics_panel:
  "statistics [] = None
   \<and> (min' first = None \<or> max' first = None \<longrightarrow> statistics (first # rest) = None)
   \<and> (min' first \<noteq> None \<and> max' first \<noteq> None \<and> validData (first # rest) \<noteq> []
        \<and> (\<forall>item\<in>set (validData (first # rest)).
               afluencia item \<noteq> Some 0 \<and> min' item \<noteq> Some 0 \<and> max' item \<noteq> Some 0)
      \<longrightarrow> statistics (first # rest) =
            Some \<lparr>promedio = Num (sum_list (map primaryValue (validData (first # rest)))
                                  / of_nat (length (validData (first # rest)))),
                  maximo = Num (Max (set (map maxOrPrimary (validData (first # rest))))),
                  minimo = Num (Min (set (map minOrPrimary (validData (first # rest)))))\<rparr>)"
proof (intro conjI impI)
  show "statistics [] = None"
    by simp
  show "statistics (first # rest) = None" if "min' first = None \<or> max' first = None"
    using that by (rule statistics_guard)
  show "statistics (first # rest) =
            Some \<lparr>promedio = Num (sum_list (map primaryValue (validData (first # rest)))
                                  / of_nat (length (validData (first # rest)))),
                  maximo = Num (Max (set (map maxOrPrimary (validData (first # rest))))),
                  minimo = Num (Min (set (map minOrPrimary (validData (first # rest)))))\<rparr>"
    if "min' first \<noteq> None \<and> max' first \<noteq> None \<and> validData (first # rest) \<noteq> []
        \<and> (\<forall>item\<in>set (validData (first # rest)).
               afluencia item \<noteq> Some 0 \<and> min' item \<noteq> Some 0 \<and> max' item \<noteq> Some 0)"
    using that by (intro statistics_nonzero) simp_all
qed

theorem statistics_panel_witness:
  "statistics
     [\<lparr>fecha' = Some ''2021-01'', afluencia = Some 10, mean = None, min' = Some 8, max' = Some 12\<rparr>,
      \<lparr>fecha' = Some ''2021-02'', afluencia = Some 20, mean = None, min' = Some 18, max' = Some 22\<rparr>,
      \<lparr>fecha' = Some ''2021-03'', afluencia = Some 30, mean = None, min' = Some 25, max' = Some 35\<rparr>]
   = Some \<lparr>promedio = Num 20, maximo = Num 35, minimo = Num 8\<rparr>"
proof -
  let ?p1 = "\<lparr>fecha' = Some ''2021-01'', afluencia = Some 10, mean = None, min' = Some 8, max' = Some 12\<rparr>"
  let ?p2 = "\<lparr>fecha' = Some ''2021-02'', afluencia = Some 20, mean = None, min' = Some 18, max' = Some 22\<rparr>"
  let ?p3 = "\<lparr>fecha' = Some ''2021-03'', afluencia = Some 30, mean = None, min' = Some 25, max' = Some 35\<rparr>"
  have v: "validData [?p1, ?p2, ?p3] = [?p1, ?p2, ?p3]"
    by (simp add: validData_def)
  have h: "min' ?p1 \<noteq> None \<and> max' ?p1 \<noteq> None \<and> validData (?p1 # [?p2, ?p3]) \<noteq> []
        \<and> (\<forall>item\<in>set (validData (?p1 # [?p2, ?p3])).
               afluencia item \<noteq> Some 0 \<and> min' item \<noteq> Some 0 \<and> max' item \<noteq> Some 0)"
    unfolding v by simp
  have "statistics (?p1 # [?p2, ?p3]) =
            Some \<lparr>promedio = Num (sum_list (map primaryValue (validData (?p1 # [?p2, ?p3])))
                                  / of_nat (length (validData (?p1 # [?p2, ?p3])))),
                  maximo = Num (Max (set (map maxOrPrimary (validData (?p1 # [?p2, ?p3]))))),
                  minimo = Num (Min (set (map minOrPrimary (validData (?p1 # [?p2, ?p3])))))\<rparr>"
    by (rule mp [OF conjunct2 [OF conjunct2 [OF statistics_panel]] h])
  then show ?thesis
    unfolding v
    by (simp add: primaryValue_def afluenciaValue_def maxOrPrimary_def minOrPrimary_def)
qed

text \<open>
  A series whose second point carries \<open>min\<close> and \<open>max\<close> and whose first point
  does not: no figure is computed.
\<close>

theorem statistics_first_point_counterexample:
  "statistics
     [\<lparr>fecha' = Some ''2021-01'', afluencia = Some 10, mean = None, min' = None, max' = None\<rparr>,
      \<lparr>fecha' = Some ''2021-02'', afluencia = Some 20, mean = None, min' = Some 15, max' = Some 25\<rparr>]
   = None
   \<and> list_ex (\<lambda>item. min' item \<noteq> None \<and> max' item \<noteq> None)
     [\<lparr>fecha' = Some ''2021-01'', afluencia = Some 10, mean = None, min' = None, max' = None\<rparr>,
      \<lparr>fecha' = Some ''2021-02'', afluencia = Some 20, mean = None, min' = Some 15, max' = Some 25\<rparr>]"
  by simp

text \<open>
  Where a valid point has the value zero, \<open>||\<close> passes on to the next operand,
  which the tooltip's test against \<open>undefined\<close> does not: a month of zero
  ridership turns the three figures into NaN.
\<close>

lemma statistics_zero_afluencia:
  "statistics
     [\<lparr>fecha' = Some ''2021-01'', afluencia = Some 0, mean = None, min' = Some 0, max' = Some 0\<rparr>,
      \<lparr>fecha' = Some ''2021-02'', afluencia = Some 10, mean = None, min' = Some 5, max' = Some 20\<rparr>]
   = Some \<lparr>promedio = NaN, maximo = NaN, minimo = NaN\<rparr>"
  by (simp add: validData_def orElse_def mathMax_def mathMin_def)

end
